theory Spec2Isabelle
  imports Complex_Main "HOL-Library.Sublist" "HOL-Library.Word"
begin

section \<open>JavaScript values\<close>

text \<open>
  The handlers of \<^verbatim>\<open>src/src/index.ts\<close> take \<^verbatim>\<open>args: any\<close>: whatever the
  transport decoded from the request. \<open>JUndefined\<close> is the value of an absent property
  and of an omitted \<^verbatim>\<open>arguments\<close> member. An object is an association list, read
  with \<open>map_of\<close>. Numbers are the real values of doubles.
\<close>

datatype jsval =
    JUndefined
  | JNull
  | JBool bool
  | JNum real
  | JStr string
  | JArr "jsval list"
  | JObj "(string \<times> jsval) list"

text \<open>The result of a numeric conversion: a double's value, an infinity or NaN.\<close>

datatype jsnum = NaN | NegInfinity | Finite real | Infinity

text \<open>
  A thrown value. The catch blocks read it with
  \<^verbatim>\<open>error instanceof Error ? error.message : String(error)\<close>: an \<open>ErrorObj\<close> carries its
  \<^verbatim>\<open>message\<close>, a \<open>NonError\<close> carries what \<^verbatim>\<open>String\<close> makes of it.
\<close>

datatype js_exn = ErrorObj string | NonError string

fun exn_message :: "js_exn \<Rightarrow> string" where
  "exn_message (ErrorObj m) = m"
| "exn_message (NonError s) = s"

text \<open>An awaited call either throws (a rejected promise) or returns.\<close>

datatype 'a outcome = Throws js_exn | Returns 'a

text \<open>\<^verbatim>\<open>!v\<close> is \<open>\<not> truthy v\<close>.\<close>

fun truthy :: "jsval \<Rightarrow> bool" where
  "truthy JUndefined = False"
| "truthy JNull = False"
| "truthy (JBool b) = b"
| "truthy (JNum n) = (n \<noteq> 0)"
| "truthy (JStr s) = (s \<noteq> [])"
| "truthy (JArr xs) = True"
| "truthy (JObj kvs) = True"

fun typeof :: "jsval \<Rightarrow> string" where
  "typeof JUndefined = ''undefined''"
| "typeof JNull = ''object''"
| "typeof (JBool b) = ''boolean''"
| "typeof (JNum n) = ''number''"
| "typeof (JStr s) = ''string''"
| "typeof (JArr xs) = ''object''"
| "typeof (JObj kvs) = ''object''"

text \<open>
  Reading a property in a destructuring pattern, once the right-hand side is known to
  be neither \<^verbatim>\<open>undefined\<close> nor \<^verbatim>\<open>null\<close>. None of the names the handlers read is a
  property of a primitive or of an array.
\<close>

fun get_prop :: "jsval \<Rightarrow> string \<Rightarrow> jsval" where
  "get_prop (JObj kvs) k = (case map_of kvs k of None \<Rightarrow> JUndefined | Some v \<Rightarrow> v)"
| "get_prop v k = JUndefined"

text \<open>A default in a destructuring pattern (\<^verbatim>\<open>page = 1\<close>) replaces \<^verbatim>\<open>undefined\<close> only.\<close>

definition with_default :: "jsval \<Rightarrow> jsval \<Rightarrow> jsval" where
  "with_default v d = (if v = JUndefined then d else v)"

text \<open>\<^verbatim>\<open>Math.min\<close> of two converted arguments.\<close>

fun Math_min :: "jsnum \<Rightarrow> jsnum \<Rightarrow> jsnum" where
  "Math_min NaN y = NaN"
| "Math_min x NaN = NaN"
| "Math_min NegInfinity y = NegInfinity"
| "Math_min x NegInfinity = NegInfinity"
| "Math_min Infinity y = y"
| "Math_min x Infinity = x"
| "Math_min (Finite a) (Finite b) = Finite (min a b)"

text \<open>\<^verbatim>\<open>Array.prototype.join\<close> on an array of strings.\<close>

fun join :: "string \<Rightarrow> string list \<Rightarrow> string" where
  "join sep [] = []"
| "join sep [x] = x"
| "join sep (x # y # ys) = x @ sep @ join sep (y # ys)"

section \<open>Numbers as text\<close>

definition digit :: "nat \<Rightarrow> char" where
  "digit d = char_of (48 + d)"

function show_nat :: "nat \<Rightarrow> string" where
  "show_nat n = (if n < 10 then [digit n] else show_nat (n div 10) @ [digit (n mod 10)])"
  by pat_completeness auto
termination
  by (relation "measure id") auto

declare show_nat.simps [simp del]

definition show_int :: "int \<Rightarrow> string" where
  "show_int i = (if i < 0 then CHR ''-'' # show_nat (nat (- i)) else show_nat (nat i))"

section \<open>\<^verbatim>\<open>JSON.stringify(value, null, 2)\<close>\<close>

text \<open>
  The values the handlers serialise: objects built from literals, provider strings and
  integers. Keys keep their insertion order.
\<close>

datatype json =
    JsonNull
  | JsonBool bool
  | JsonNumber int
  | JsonString string
  | JsonArray "json list"
  | JsonObject "(string \<times> json) list"

definition hex_digit :: "nat \<Rightarrow> char" where
  "hex_digit d = (if d < 10 then char_of (48 + d) else char_of (87 + d))"

text \<open>One character inside a JSON string literal.\<close>

definition quote_char :: "char \<Rightarrow> string" where
  "quote_char c =
     (if c = CHR 0x22 then [CHR 0x5C, CHR 0x22]
      else if c = CHR 0x5C then [CHR 0x5C, CHR 0x5C]
      else if c = CHR 0x08 then [CHR 0x5C, CHR ''b'']
      else if c = CHR 0x0C then [CHR 0x5C, CHR ''f'']
      else if c = CHR 0x0A then [CHR 0x5C, CHR ''n'']
      else if c = CHR 0x0D then [CHR 0x5C, CHR ''r'']
      else if c = CHR 0x09 then [CHR 0x5C, CHR ''t'']
      else if (of_char c :: nat) < 32
        then [CHR 0x5C, CHR ''u'', CHR ''0'', CHR ''0'',
              hex_digit (of_char c div 16), hex_digit (of_char c mod 16)]
      else [c])"

definition quote :: "string \<Rightarrow> string" where
  "quote s = CHR 0x22 # concat (map quote_char s) @ [CHR 0x22]"

definition newline :: string where
  "newline = [CHR 0x0A]"

definition spaces :: "nat \<Rightarrow> string" where
  "spaces n = replicate n CHR '' ''"

text \<open>
  \<open>stringify_at n v\<close> is the text of \<open>v\<close> when the line it starts on is indented by \<open>n\<close>
  spaces; members go one per line, two spaces deeper, separated by a comma and a line
  break; an empty array or object is \<^verbatim>\<open>[]\<close> or \<^verbatim>\<open>{}\<close>.
\<close>

fun stringify_at :: "nat \<Rightarrow> json \<Rightarrow> string" where
  "stringify_at n JsonNull = ''null''"
| "stringify_at n (JsonBool b) = (if b then ''true'' else ''false'')"
| "stringify_at n (JsonNumber i) = show_int i"
| "stringify_at n (JsonString s) = quote s"
| "stringify_at n (JsonArray xs) =
     (if xs = [] then ''[]''
      else ''['' @ newline
        @ join ('','' @ newline) (map (\<lambda>x. spaces (n + 2) @ stringify_at (n + 2) x) xs)
        @ newline @ spaces n @ '']'')"
| "stringify_at n (JsonObject kvs) =
     (if kvs = [] then ''{}''
      else ''{'' @ newline
        @ join ('','' @ newline)
            (map (\<lambda>kv. spaces (n + 2) @ quote (fst kv) @ '': '' @ stringify_at (n + 2) (snd kv)) kvs)
        @ newline @ spaces n @ ''}'')"

definition JSON_stringify :: "json \<Rightarrow> string" where
  "JSON_stringify v = stringify_at 0 v"

section \<open>The provider, the file system and the network\<close>

text \<open>
  What \<^verbatim>\<open>unsplash-js\<close> returns: an object with an \<^verbatim>\<open>errors\<close> array of strings, or one
  with a \<^verbatim>\<open>response\<close>. The handlers test \<^verbatim>\<open>if (result.errors)\<close>; an array is truthy
  even when empty, so \<open>ApiErrors []\<close> takes the error branch too.
\<close>

datatype 'a api_response = ApiErrors "string list" | ApiSuccess 'a

text \<open>
  The fields of a provider photo that the handlers read, with the types the provider
  client gives them. \<^verbatim>\<open>description\<close> and \<^verbatim>\<open>alt_description\<close> are nullable strings
  (\<open>None\<close> is \<^verbatim>\<open>null\<close>); sizes and totals are integers.
\<close>

record photo_urls =
  raw :: string
  full :: string
  regular :: string
  small :: string
  thumb :: string

record user_links =
  html :: string

record user =
  name :: string
  username :: string
  links :: user_links

record photo_links =
  self :: string
  html :: string
  download :: string
  download_location :: string

record photo =
  id :: string
  description :: "string option"
  alt_description :: "string option"
  width :: int
  height :: int
  urls :: photo_urls
  user :: user
  links :: photo_links

record search_response =
  total :: int
  total_pages :: int
  results :: "photo list"

text \<open>\<^verbatim>\<open>photos.getRandom\<close> answers with one photo or with an array of photos.\<close>

datatype random_response = Single photo | Many "photo list"

text \<open>The parameter objects the handlers build for the provider.\<close>

record search_params =
  query :: jsval
  page :: jsval
  perPage :: jsnum
  orientation :: jsval

record random_params =
  query :: jsval
  orientation :: jsval
  count :: jsnum

type_synonym bytes = "8 word list"

text \<open>The \<^verbatim>\<open>node-fetch\<close> response; \<open>buffer\<close> is what \<^verbatim>\<open>await response.buffer()\<close> does.\<close>

record http_response =
  ok :: bool
  status :: nat
  statusText :: string
  buffer :: "bytes outcome"

text \<open>
  Everything outside the repository is a parameter: the provider client, \<^verbatim>\<open>fetch\<close>,
  \<^verbatim>\<open>path.dirname\<close>, the \<^verbatim>\<open>fs\<close> module over a file-system state \<open>'fs\<close>, and the
  engine's own behaviour at three places: the number \<^verbatim>\<open>Math.min\<close> makes of a string,
  an array or an object, the \<^verbatim>\<open>TypeError\<close> of destructuring \<^verbatim>\<open>undefined\<close> or
  \<^verbatim>\<open>null\<close>, and the \<^verbatim>\<open>TypeError\<close> of \<^verbatim>\<open>path.dirname\<close> on a value that is not a
  string. A file-system call returns its outcome and the state it leaves, also when
  it throws. \<^verbatim>\<open>fs_mkdirSync\<close> is \<^verbatim>\<open>fs.mkdirSync(dir, { recursive: true })\<close>.
\<close>

record 'fs world =
  ToNumber_other :: "jsval \<Rightarrow> jsnum"
  destructure_TypeError :: "jsval \<Rightarrow> js_exn"
  dirname_TypeError :: "jsval \<Rightarrow> js_exn"
  search_getPhotos :: "search_params \<Rightarrow> search_response api_response outcome"
  photos_getRandom :: "random_params \<Rightarrow> random_response api_response outcome"
  photos_get :: "jsval \<Rightarrow> photo api_response outcome"
  photos_trackDownload :: "string \<Rightarrow> string api_response outcome"
  path_dirname :: "string \<Rightarrow> string"
  fs_existsSync :: "'fs \<Rightarrow> string \<Rightarrow> bool"
  fs_mkdirSync :: "'fs \<Rightarrow> string \<Rightarrow> unit outcome \<times> 'fs"
  fetch :: "jsval \<Rightarrow> http_response outcome"
  fs_writeFile :: "'fs \<Rightarrow> string \<Rightarrow> bytes \<Rightarrow> unit outcome \<times> 'fs"

text \<open>The calls a handler makes, in the order it makes them.\<close>

datatype event =
    Call_search_getPhotos search_params
  | Call_photos_getRandom random_params
  | Call_photos_get jsval
  | Call_photos_trackDownload string
  | Call_fs_existsSync string
  | Call_fs_mkdirSync string
  | Call_fetch jsval
  | Call_fs_writeFile string bytes

fun is_provider_call :: "event \<Rightarrow> bool" where
  "is_provider_call (Call_search_getPhotos p) = True"
| "is_provider_call (Call_photos_getRandom p) = True"
| "is_provider_call (Call_photos_get i) = True"
| "is_provider_call (Call_photos_trackDownload l) = True"
| "is_provider_call e = False"

fun is_fetch :: "event \<Rightarrow> bool" where
  "is_fetch (Call_fetch u) = True"
| "is_fetch e = False"

text \<open>\<^verbatim>\<open>ToNumber\<close>, as \<^verbatim>\<open>Math.min\<close> applies it to each argument.\<close>

fun ToNumber :: "'fs world \<Rightarrow> jsval \<Rightarrow> jsnum" where
  "ToNumber w JUndefined = NaN"
| "ToNumber w JNull = Finite 0"
| "ToNumber w (JBool b) = Finite (if b then 1 else 0)"
| "ToNumber w (JNum n) = Finite n"
| "ToNumber w v = ToNumber_other w v"

section \<open>The response envelope\<close>

record content_item =
  type :: string
  "text" :: string

text \<open>A success envelope has no \<^verbatim>\<open>isError\<close> property: \<open>None\<close>.\<close>

record envelope =
  content :: "content_item list"
  isError :: "bool option"

text \<open>
  The two object literals every \<^verbatim>\<open>return\<close> of the handlers writes out:
  \<^verbatim>\<open>{ content: [{ type: 'text', text }], isError: true }\<close> and the same without
  \<^verbatim>\<open>isError\<close>.
\<close>

definition errorEnvelope :: "string \<Rightarrow> envelope" where
  "errorEnvelope t = \<lparr>content = [\<lparr>type = ''text'', text = t\<rparr>], isError = Some True\<rparr>"

definition successEnvelope :: "string \<Rightarrow> envelope" where
  "successEnvelope t = \<lparr>content = [\<lparr>type = ''text'', text = t\<rparr>], isError = None\<rparr>"

text \<open>
  A \<^verbatim>\<open>catch (error)\<close> block: the handler's prefix, then the message. The line the
  block logs with \<^verbatim>\<open>console.error\<close> is not part of the model.
\<close>

definition caught :: "string \<Rightarrow> js_exn \<Rightarrow> envelope" where
  "caught pre e = errorEnvelope (pre @ exn_message e)"

section \<open>The handlers\<close>

text \<open>
  \<^verbatim>\<open>a || b\<close> for a nullable string \<open>a\<close>: \<^verbatim>\<open>null\<close> and the empty string are falsy.
\<close>

fun str_or :: "string option \<Rightarrow> string \<Rightarrow> string" where
  "str_or None b = b"
| "str_or (Some a) b = (if a = [] then b else a)"

text \<open>
  \<^verbatim>\<open>urls: photo.urls\<close> and \<^verbatim>\<open>links: photo.links\<close> hand the provider's objects on as
  they are; their keys are taken in the order of the provider's documentation.
\<close>

definition urls_json :: "photo_urls \<Rightarrow> json" where
  "urls_json u = JsonObject
     [(''raw'', JsonString (raw u)), (''full'', JsonString (full u)),
      (''regular'', JsonString (regular u)), (''small'', JsonString (small u)),
      (''thumb'', JsonString (thumb u))]"

definition links_json :: "photo_links \<Rightarrow> json" where
  "links_json l = JsonObject
     [(''self'', JsonString (self l)), (''html'', JsonString (photo_links.html l)),
      (''download'', JsonString (download l)),
      (''download_location'', JsonString (download_location l))]"

text \<open>
  The projection of a photo: \<^verbatim>\<open>formatPhoto\<close> in \<^verbatim>\<open>handleGetRandomImage\<close>, and the same
  object literal in \<^verbatim>\<open>handleSearchImages\<close> and \<^verbatim>\<open>handleGetImageById\<close>.
\<close>

definition formatPhoto :: "photo \<Rightarrow> json" where
  "formatPhoto p = JsonObject
     [(''id'', JsonString (photo.id p)),
      (''description'',
         JsonString (str_or (description p) (str_or (alt_description p) ''No description''))),
      (''width'', JsonNumber (width p)),
      (''height'', JsonNumber (height p)),
      (''urls'', urls_json (urls p)),
      (''user'', JsonObject
         [(''name'', JsonString (name (user p))),
          (''username'', JsonString (username (user p))),
          (''link'', JsonString (user_links.html (user.links (user p))))]),
      (''links'', links_json (photo.links p))]"

definition handleSearchImages :: "'fs world \<Rightarrow> 'fs \<Rightarrow> jsval \<Rightarrow> envelope \<times> event list \<times> 'fs" where
  "handleSearchImages w fs args =
     (if args = JUndefined \<or> args = JNull
      then (caught ''Error searching images: '' (destructure_TypeError w args), [], fs)
      else
        let query = get_prop args ''query'';
            page = with_default (get_prop args ''page'') (JNum 1);
            perPage = with_default (get_prop args ''perPage'') (JNum 10);
            orientation = get_prop args ''orientation''
        in
        if \<not> truthy query \<or> typeof query \<noteq> ''string''
        then (errorEnvelope ''Invalid query. Please provide a search term.'', [], fs)
        else
          let params = \<lparr>search_params.query = query, page = page,
                        perPage = Math_min (ToNumber w perPage) (Finite 30),
                        orientation = orientation\<rparr>
          in
          (case search_getPhotos w params of
             Throws e \<Rightarrow>
               (caught ''Error searching images: '' e, [Call_search_getPhotos params], fs)
           | Returns (ApiErrors errors) \<Rightarrow>
               (errorEnvelope (''Unsplash API error: '' @ join '', '' errors),
                [Call_search_getPhotos params], fs)
           | Returns (ApiSuccess response) \<Rightarrow>
               let images = map formatPhoto (results response) in
               (successEnvelope (JSON_stringify (JsonObject
                  [(''total'', JsonNumber (total response)),
                   (''total_pages'', JsonNumber (total_pages response)),
                   (''images'', JsonArray images)])),
                [Call_search_getPhotos params], fs)))"

definition handleGetRandomImage :: "'fs world \<Rightarrow> 'fs \<Rightarrow> jsval \<Rightarrow> envelope \<times> event list \<times> 'fs" where
  "handleGetRandomImage w fs args =
     (if args = JUndefined \<or> args = JNull
      then (caught ''Error getting random image: '' (destructure_TypeError w args), [], fs)
      else
        let query = get_prop args ''query'';
            orientation = get_prop args ''orientation'';
            count = with_default (get_prop args ''count'') (JNum 1);
            params = \<lparr>random_params.query = query, orientation = orientation,
                      count = Math_min (ToNumber w count) (Finite 30)\<rparr>
        in
        (case photos_getRandom w params of
           Throws e \<Rightarrow>
             (caught ''Error getting random image: '' e, [Call_photos_getRandom params], fs)
         | Returns (ApiErrors errors) \<Rightarrow>
             (errorEnvelope (''Unsplash API error: '' @ join '', '' errors),
              [Call_photos_getRandom params], fs)
         | Returns (ApiSuccess response) \<Rightarrow>
             let images = (case response of
                             Many photos \<Rightarrow> map formatPhoto photos
                           | Single p \<Rightarrow> [formatPhoto p])
             in
             (successEnvelope (JSON_stringify (JsonObject [(''images'', JsonArray images)])),
              [Call_photos_getRandom params], fs)))"

definition handleGetImageById :: "'fs world \<Rightarrow> 'fs \<Rightarrow> jsval \<Rightarrow> envelope \<times> event list \<times> 'fs" where
  "handleGetImageById w fs args =
     (if args = JUndefined \<or> args = JNull
      then (caught ''Error getting image by ID: '' (destructure_TypeError w args), [], fs)
      else
        let id = get_prop args ''id'' in
        if \<not> truthy id \<or> typeof id \<noteq> ''string''
        then (errorEnvelope ''Invalid ID. Please provide a valid Unsplash image ID.'', [], fs)
        else
          (case photos_get w id of
             Throws e \<Rightarrow> (caught ''Error getting image by ID: '' e, [Call_photos_get id], fs)
           | Returns (ApiErrors errors) \<Rightarrow>
               (errorEnvelope (''Unsplash API error: '' @ join '', '' errors),
                [Call_photos_get id], fs)
           | Returns (ApiSuccess p) \<Rightarrow>
               let image = formatPhoto p in
               (successEnvelope (JSON_stringify (JsonObject [(''image'', image)])),
                [Call_photos_get id], fs)))"

text \<open>
  \<^verbatim>\<open>handleDownloadImage\<close> is long; its body is taken in the four blocks its own comments
  mark, each returning the calls it made. First, \<^verbatim>\<open>// Ensure the directory exists\<close>:
  \<^verbatim>\<open>path.dirname\<close>, \<^verbatim>\<open>fs.existsSync\<close> and, when the directory is absent,
  \<^verbatim>\<open>fs.mkdirSync(dir, { recursive: true })\<close>.
\<close>

definition ensureDirectory :: "'fs world \<Rightarrow> 'fs \<Rightarrow> string \<Rightarrow> unit outcome \<times> event list \<times> 'fs" where
  "ensureDirectory w fs destinationPath =
     (let dir = path_dirname w destinationPath in
      if \<not> fs_existsSync w fs dir
      then (fst (fs_mkdirSync w fs dir),
            [Call_fs_existsSync dir, Call_fs_mkdirSync dir],
            snd (fs_mkdirSync w fs dir))
      else (Returns (), [Call_fs_existsSync dir], fs))"

text \<open>The \<^verbatim>\<open>switch (quality)\<close>: strict equality with each label, \<^verbatim>\<open>regular\<close> by default.\<close>

definition selectUrl :: "jsval \<Rightarrow> photo_urls \<Rightarrow> string" where
  "selectUrl quality u =
     (if quality = JStr ''raw'' then raw u
      else if quality = JStr ''full'' then full u
      else if quality = JStr ''small'' then small u
      else if quality = JStr ''thumb'' then thumb u
      else regular u)"

text \<open>
  Second, \<^verbatim>\<open>// Get the image URL based on the source type\<close>: the
  \<^verbatim>\<open>if (sourceType === 'id') ... else ...\<close> block. It either leaves the handler with an
  envelope (\<open>Inl\<close>: the \<^verbatim>\<open>return\<close> on provider errors, or a throw that the handler's
  \<^verbatim>\<open>catch\<close> turns into one) or sets \<^verbatim>\<open>imageUrl\<close> (\<open>Inr\<close>). The value
  \<^verbatim>\<open>trackDownload\<close> returns is not read.
\<close>

definition resolveImageUrl :: "'fs world \<Rightarrow> jsval \<Rightarrow> jsval \<Rightarrow> jsval \<Rightarrow> (envelope + jsval) \<times> event list" where
  "resolveImageUrl w sourceType imageSource quality =
     (if sourceType = JStr ''id''
      then
        (case photos_get w imageSource of
           Throws e \<Rightarrow>
             (Inl (caught ''Error downloading image: '' e), [Call_photos_get imageSource])
         | Returns (ApiErrors errors) \<Rightarrow>
             (Inl (errorEnvelope (''Unsplash API error: '' @ join '', '' errors)),
              [Call_photos_get imageSource])
         | Returns (ApiSuccess response) \<Rightarrow>
             let imageUrl = selectUrl quality (photo.urls response);
                 downloadLocation = download_location (photo.links response)
             in
             (case photos_trackDownload w downloadLocation of
                Throws e \<Rightarrow>
                  (Inl (caught ''Error downloading image: '' e),
                   [Call_photos_get imageSource, Call_photos_trackDownload downloadLocation])
              | Returns tracked \<Rightarrow>
                  (Inr (JStr imageUrl),
                   [Call_photos_get imageSource, Call_photos_trackDownload downloadLocation])))
      else (Inr imageSource, []))"

text \<open>
  Third and fourth, \<^verbatim>\<open>// Download the image\<close> to the final \<^verbatim>\<open>return\<close>: the fetch,
  the status test, the buffer, \<^verbatim>\<open>fs.writeFile\<close> and the outcome object.
\<close>

definition fetchAndWrite :: "'fs world \<Rightarrow> 'fs \<Rightarrow> string \<Rightarrow> jsval \<Rightarrow> envelope \<times> event list \<times> 'fs" where
  "fetchAndWrite w fs destinationPath imageUrl =
     (case fetch w imageUrl of
        Throws e \<Rightarrow> (caught ''Error downloading image: '' e, [Call_fetch imageUrl], fs)
      | Returns response \<Rightarrow>
          if \<not> ok response
          then (errorEnvelope
                  (''Failed to download image: '' @ show_nat (status response)
                     @ '' '' @ statusText response),
                [Call_fetch imageUrl], fs)
          else
            (case buffer response of
               Throws e \<Rightarrow> (caught ''Error downloading image: '' e, [Call_fetch imageUrl], fs)
             | Returns buf \<Rightarrow>
                 (case fst (fs_writeFile w fs destinationPath buf) of
                    Throws e \<Rightarrow>
                      (caught ''Error downloading image: '' e,
                       [Call_fetch imageUrl, Call_fs_writeFile destinationPath buf],
                       snd (fs_writeFile w fs destinationPath buf))
                  | Returns u \<Rightarrow>
                      (successEnvelope (JSON_stringify (JsonObject
                         [(''success'', JsonBool True),
                          (''message'', JsonString
                             (''Image successfully downloaded to '' @ destinationPath)),
                          (''filePath'', JsonString destinationPath),
                          (''fileSize'', JsonNumber (int (length buf)))])),
                       [Call_fetch imageUrl, Call_fs_writeFile destinationPath buf],
                       snd (fs_writeFile w fs destinationPath buf)))))"

text \<open>
  The handler: destructuring, the two validations, then the blocks in order.
  \<^verbatim>\<open>path.dirname\<close> throws on a \<^verbatim>\<open>destinationPath\<close> that is not a string.
\<close>

definition handleDownloadImage :: "'fs world \<Rightarrow> 'fs \<Rightarrow> jsval \<Rightarrow> envelope \<times> event list \<times> 'fs" where
  "handleDownloadImage w fs args =
     (if args = JUndefined \<or> args = JNull
      then (caught ''Error downloading image: '' (destructure_TypeError w args), [], fs)
      else
        let imageSource = get_prop args ''imageSource'';
            sourceType = get_prop args ''sourceType'';
            destinationPath = get_prop args ''destinationPath'';
            quality = with_default (get_prop args ''quality'') (JStr ''regular'')
        in
        if \<not> truthy imageSource \<or> \<not> truthy sourceType \<or> \<not> truthy destinationPath
        then (errorEnvelope
                ''Missing required parameters. Please provide imageSource, sourceType, and destinationPath.'',
              [], fs)
        else if sourceType \<noteq> JStr ''url'' \<and> sourceType \<noteq> JStr ''id''
        then (errorEnvelope
                (''Invalid sourceType. Please provide either '' @ [CHR 0x22] @ ''url'' @ [CHR 0x22]
                   @ '' or '' @ [CHR 0x22] @ ''id'' @ [CHR 0x22] @ ''.''),
              [], fs)
        else
          (case destinationPath of
             JStr dest \<Rightarrow>
               (case ensureDirectory w fs dest of
                  (Throws e, calls1, fs1) \<Rightarrow>
                    (caught ''Error downloading image: '' e, calls1, fs1)
                | (Returns u, calls1, fs1) \<Rightarrow>
                    (case resolveImageUrl w sourceType imageSource quality of
                       (Inl env, calls2) \<Rightarrow> (env, calls1 @ calls2, fs1)
                     | (Inr imageUrl, calls2) \<Rightarrow>
                         (case fetchAndWrite w fs1 dest imageUrl of
                            (env, calls3, fs2) \<Rightarrow> (env, calls1 @ calls2 @ calls3, fs2))))
           | v \<Rightarrow> (caught ''Error downloading image: '' (dirname_TypeError w v), [], fs)))"

section \<open>The dispatcher\<close>

text \<open>The error codes of the protocol library; the dispatcher uses one.\<close>

datatype ErrorCode =
    ConnectionClosed
  | RequestTimeout
  | ParseError
  | InvalidRequest
  | MethodNotFound
  | InvalidParams
  | InternalError

datatype McpError = McpError ErrorCode string

record params =
  name :: string
  arguments :: jsval

text \<open>
  The \<^verbatim>\<open>CallToolRequestSchema\<close> handler: \<open>Inl\<close> is the thrown \<^verbatim>\<open>McpError\<close>, \<open>Inr\<close> what
  the chosen handler returns.
\<close>

definition callTool :: "'fs world \<Rightarrow> 'fs \<Rightarrow> params \<Rightarrow> McpError + envelope \<times> event list \<times> 'fs" where
  "callTool w fs request =
     (if params.name request = ''search_images''
        then Inr (handleSearchImages w fs (arguments request))
      else if params.name request = ''get_random_image''
        then Inr (handleGetRandomImage w fs (arguments request))
      else if params.name request = ''get_image_by_id''
        then Inr (handleGetImageById w fs (arguments request))
      else if params.name request = ''download_image''
        then Inr (handleDownloadImage w fs (arguments request))
      else Inl (McpError MethodNotFound (''Unknown tool: '' @ params.name request)))"

section \<open>Properties of envelopes and of invocations\<close>

text \<open>
  The texts the handlers put into an error envelope: four constant messages, and six
  prefixes followed by a provider's errors, an exception's message or a status line.
\<close>

definition fixed_error_messages :: "string list" where
  "fixed_error_messages =
     [''Invalid query. Please provide a search term.'',
      ''Invalid ID. Please provide a valid Unsplash image ID.'',
      ''Missing required parameters. Please provide imageSource, sourceType, and destinationPath.'',
      ''Invalid sourceType. Please provide either '' @ [CHR 0x22] @ ''url'' @ [CHR 0x22]
         @ '' or '' @ [CHR 0x22] @ ''id'' @ [CHR 0x22] @ ''.'']"

definition error_message_prefixes :: "string list" where
  "error_message_prefixes =
     [''Unsplash API error: '',
      ''Error searching images: '',
      ''Error getting random image: '',
      ''Error getting image by ID: '',
      ''Failed to download image: '',
      ''Error downloading image: '']"

definition is_error_message :: "string \<Rightarrow> bool" where
  "is_error_message t =
     (t \<in> set fixed_error_messages \<or> list_ex (\<lambda>p. prefix p t) error_message_prefixes)"

text \<open>
  An envelope is well formed when its content is one text item, \<^verbatim>\<open>isError\<close> is
  \<^verbatim>\<open>true\<close> exactly when the text is an error message, and otherwise \<^verbatim>\<open>isError\<close> is
  absent and the text is the serialisation of an object with at least one member.
\<close>

definition envelope_ok :: "envelope \<Rightarrow> bool" where
  "envelope_ok env =
     (\<exists>t. content env = [\<lparr>type = ''text'', text = t\<rparr>]
        \<and> (isError env = Some True \<longleftrightarrow> is_error_message t)
        \<and> (isError env \<noteq> Some True \<longrightarrow>
             isError env = None \<and> (\<exists>kvs. kvs \<noteq> [] \<and> t = JSON_stringify (JsonObject kvs))))"

text \<open>
  The arguments of \<^verbatim>\<open>download_image\<close> pass both validations: an object whose three
  required members are truthy and whose \<^verbatim>\<open>sourceType\<close> is \<^verbatim>\<open>'url'\<close> or \<^verbatim>\<open>'id'\<close>.
\<close>

definition validated :: "jsval \<Rightarrow> bool" where
  "validated args \<longleftrightarrow>
     args \<noteq> JUndefined \<and> args \<noteq> JNull
     \<and> truthy (get_prop args ''imageSource'')
     \<and> truthy (get_prop args ''sourceType'')
     \<and> truthy (get_prop args ''destinationPath'')
     \<and> (get_prop args ''sourceType'' = JStr ''url'' \<or> get_prop args ''sourceType'' = JStr ''id'')"

text \<open>A call that leaves the process: to the provider, or the fetch of the image.\<close>

definition is_remote :: "event \<Rightarrow> bool" where
  "is_remote e \<longleftrightarrow> is_provider_call e \<or> is_fetch e"

section \<open>A small world to run the handlers in\<close>

text \<open>
  A file system of directory names and files, a provider that knows one photo, and a
  server that has its \<^verbatim>\<open>full\<close> and \<^verbatim>\<open>regular\<close> renditions.
\<close>

record demo_fs =
  directories :: "string list"
  files :: "(string \<times> bytes) list"

definition demo_dirname :: "string \<Rightarrow> string" where
  "demo_dirname p = rev (drop 1 (dropWhile (\<lambda>c. c \<noteq> CHR ''/'') (rev p)))"

definition demo_photo :: photo where
  "demo_photo =
     \<lparr>id = ''abc123'', description = None, alt_description = Some ''a cat'',
      width = 4000, height = 3000,
      urls = \<lparr>raw = ''https://img/raw'', full = ''https://img/full'',
              regular = ''https://img/regular'', small = ''https://img/small'',
              thumb = ''https://img/thumb''\<rparr>,
      user = \<lparr>user.name = ''Ann'', username = ''ann'',
              user.links = \<lparr>user_links.html = ''https://u/ann''\<rparr>\<rparr>,
      links = \<lparr>self = ''https://api/p/abc123'', html = ''https://p/abc123'',
               download = ''https://p/abc123/download'',
               download_location = ''https://api/p/abc123/download''\<rparr>\<rparr>"

definition demo_world :: "demo_fs world" where
  "demo_world =
     \<lparr>ToNumber_other = (\<lambda>v. NaN),
      destructure_TypeError = (\<lambda>v. ErrorObj ''Cannot destructure property of undefined''),
      dirname_TypeError = (\<lambda>v. ErrorObj ''The path argument must be of type string''),
      search_getPhotos =
        (\<lambda>p. Returns (ApiSuccess \<lparr>total = 1, total_pages = 1, results = [demo_photo]\<rparr>)),
      photos_getRandom =
        (\<lambda>p. Returns (ApiSuccess (if count p = Finite 1 then Single demo_photo
                                   else Many [demo_photo, demo_photo]))),
      photos_get =
        (\<lambda>i. if i = JStr ''abc123'' then Returns (ApiSuccess demo_photo)
             else Returns (ApiErrors [''Not found'', ''Bad id''])),
      photos_trackDownload = (\<lambda>l. Returns (ApiErrors [''Rate limit exceeded''])),
      path_dirname = demo_dirname,
      fs_existsSync = (\<lambda>s d. d \<in> set (directories s)),
      fs_mkdirSync = (\<lambda>s d. (Returns (), s\<lparr>directories := d # directories s\<rparr>)),
      fetch =
        (\<lambda>u. if u = JStr ''https://img/full'' \<or> u = JStr ''https://img/regular''
             then Returns \<lparr>ok = True, status = 200, statusText = ''OK'',
                           buffer = Returns [1, 2, 3]\<rparr>
             else Returns \<lparr>ok = False, status = 404, statusText = ''Not Found'',
                           buffer = Throws (ErrorObj ''body used already'')\<rparr>),
      fs_writeFile = (\<lambda>s p b. (Returns (), s\<lparr>files := (p, b) # files s\<rparr>))\<rparr>"

definition demo_fs0 :: demo_fs where
  "demo_fs0 = \<lparr>directories = [], files = []\<rparr>"

definition demo_download_args :: jsval where
  "demo_download_args =
     JObj [(''imageSource'', JStr ''abc123''), (''sourceType'', JStr ''id''),
           (''destinationPath'', JStr ''/tmp/out/cat.jpg''), (''quality'', JStr ''full'')]"

text \<open>The same world with a tracking endpoint that cannot be reached.\<close>

definition offline_tracking_world :: "demo_fs world" where
  "offline_tracking_world =
     demo_world\<lparr>photos_trackDownload := (\<lambda>l. Throws (ErrorObj ''network down''))\<rparr>"

definition demo_failing_args :: jsval where
  "demo_failing_args =
     JObj [(''imageSource'', JStr ''nope''), (''sourceType'', JStr ''id''),
           (''destinationPath'', JStr ''/tmp/out/cat.jpg'')]"

text \<open>The same world on a file system that refuses to create directories.\<close>

definition readonly_world :: "demo_fs world" where
  "readonly_world =
     demo_world\<lparr>fs_mkdirSync :=
       (\<lambda>s d. (Throws (ErrorObj ''EACCES: permission denied, mkdir''), s))\<rparr>"

section \<open>The envelope invariant\<close>

lemma stringify_object_brace:
  "kvs \<noteq> [] \<Longrightarrow> \<exists>r. JSON_stringify (JsonObject kvs) = CHR ''{'' # r"
  by (simp add: JSON_stringify_def)

lemma brace_not_error_message: "\<not> is_error_message (CHR ''{'' # r)"
  by (simp add: is_error_message_def fixed_error_messages_def error_message_prefixes_def)

lemma errorEnvelope_ok: "envelope_ok (errorEnvelope t) \<longleftrightarrow> is_error_message t"
  by (simp add: envelope_ok_def errorEnvelope_def)

lemma successEnvelope_ok:
  assumes "kvs \<noteq> []"
  shows "envelope_ok (successEnvelope (JSON_stringify (JsonObject kvs)))"
proof -
  from assms obtain r where r: "JSON_stringify (JsonObject kvs) = CHR ''{'' # r"
    using stringify_object_brace by blast
  have "\<not> is_error_message (JSON_stringify (JsonObject kvs))"
    unfolding r by (rule brace_not_error_message)
  with assms show ?thesis
    unfolding envelope_ok_def successEnvelope_def by auto
qed

lemmas error_message_simps =
  errorEnvelope_ok caught_def is_error_message_def fixed_error_messages_def
  error_message_prefixes_def

lemma search_ok: "envelope_ok (fst (handleSearchImages w fs args))"
  by (simp add: handleSearchImages_def Let_def successEnvelope_ok error_message_simps
      split: outcome.splits api_response.splits)

lemma random_ok: "envelope_ok (fst (handleGetRandomImage w fs args))"
  by (simp add: handleGetRandomImage_def Let_def successEnvelope_ok error_message_simps
      split: outcome.splits api_response.splits)

lemma byid_ok: "envelope_ok (fst (handleGetImageById w fs args))"
  by (simp add: handleGetImageById_def Let_def successEnvelope_ok error_message_simps
      split: outcome.splits api_response.splits)

lemma resolve_ok:
  "resolveImageUrl w st src q = (Inl env, calls) \<Longrightarrow> envelope_ok env"
  by (auto simp: resolveImageUrl_def Let_def error_message_simps
      split: if_splits outcome.splits api_response.splits)

lemma fetchAndWrite_ok: "envelope_ok (fst (fetchAndWrite w fs dest url))"
  by (simp add: fetchAndWrite_def successEnvelope_ok error_message_simps
      split: outcome.splits)

text \<open>The three ways through \<^verbatim>\<open>handleDownloadImage\<close> up to the first block.\<close>

lemma download_not_validated:
  assumes "\<not> validated args"
  shows "\<exists>t. is_error_message t \<and> handleDownloadImage w fs args = (errorEnvelope t, [], fs)"
proof (cases "args = JUndefined \<or> args = JNull")
  case True
  then have "handleDownloadImage w fs args =
      (errorEnvelope (''Error downloading image: '' @ exn_message (destructure_TypeError w args)),
       [], fs)"
    unfolding handleDownloadImage_def caught_def by simp
  moreover have "is_error_message
      (''Error downloading image: '' @ exn_message (destructure_TypeError w args))"
    by (simp add: error_message_simps)
  ultimately show ?thesis by blast
next
  case False
  note obj = this
  show ?thesis
  proof (cases "\<not> truthy (get_prop args ''imageSource'') \<or> \<not> truthy (get_prop args ''sourceType'')
      \<or> \<not> truthy (get_prop args ''destinationPath'')")
    case True
    with obj have "handleDownloadImage w fs args =
      (errorEnvelope
         ''Missing required parameters. Please provide imageSource, sourceType, and destinationPath.'',
       [], fs)"
      unfolding handleDownloadImage_def Let_def by simp
    moreover have "is_error_message
      ''Missing required parameters. Please provide imageSource, sourceType, and destinationPath.''"
      by (simp add: error_message_simps)
    ultimately show ?thesis by blast
  next
    case False
    with obj assms have "get_prop args ''sourceType'' \<noteq> JStr ''url''
        \<and> get_prop args ''sourceType'' \<noteq> JStr ''id''"
      unfolding validated_def by blast
    with obj False have "handleDownloadImage w fs args =
      (errorEnvelope (''Invalid sourceType. Please provide either '' @ [CHR 0x22] @ ''url''
         @ [CHR 0x22] @ '' or '' @ [CHR 0x22] @ ''id'' @ [CHR 0x22] @ ''.''), [], fs)"
      unfolding handleDownloadImage_def Let_def by simp
    moreover have "is_error_message (''Invalid sourceType. Please provide either ''
        @ [CHR 0x22] @ ''url'' @ [CHR 0x22] @ '' or '' @ [CHR 0x22] @ ''id'' @ [CHR 0x22] @ ''.'')"
      by (simp add: error_message_simps)
    ultimately show ?thesis by blast
  qed
qed

lemma download_not_string:
  assumes "validated args" "\<forall>dest. get_prop args ''destinationPath'' \<noteq> JStr dest"
  shows "handleDownloadImage w fs args =
           (caught ''Error downloading image: ''
              (dirname_TypeError w (get_prop args ''destinationPath'')), [], fs)"
  using assms unfolding validated_def handleDownloadImage_def Let_def
  by (cases "get_prop args ''destinationPath''") auto

lemma download_validated:
  assumes "validated args" "get_prop args ''destinationPath'' = JStr dest"
  shows "handleDownloadImage w fs args =
     (case ensureDirectory w fs dest of
        (Throws e, calls1, fs1) \<Rightarrow> (caught ''Error downloading image: '' e, calls1, fs1)
      | (Returns u, calls1, fs1) \<Rightarrow>
          (case resolveImageUrl w (get_prop args ''sourceType'') (get_prop args ''imageSource'')
                  (with_default (get_prop args ''quality'') (JStr ''regular'')) of
             (Inl env, calls2) \<Rightarrow> (env, calls1 @ calls2, fs1)
           | (Inr imageUrl, calls2) \<Rightarrow>
               (case fetchAndWrite w fs1 dest imageUrl of
                  (env, calls3, fs2) \<Rightarrow> (env, calls1 @ calls2 @ calls3, fs2))))"
  using assms unfolding validated_def handleDownloadImage_def Let_def
  by auto

lemma download_ok: "envelope_ok (fst (handleDownloadImage w fs args))"
proof (cases "validated args")
  case False
  then show ?thesis
    using download_not_validated[of args w fs] by (auto simp: errorEnvelope_ok)
next
  case True
  note valid = this
  show ?thesis
  proof (cases "\<exists>dest. get_prop args ''destinationPath'' = JStr dest")
    case False
    then show ?thesis
      using download_not_string[OF valid, of w fs] by (simp add: error_message_simps)
  next
    case True
    then obtain dest where dest: "get_prop args ''destinationPath'' = JStr dest" by blast
    obtain made calls1 fs1 where ens: "ensureDirectory w fs dest = (made, calls1, fs1)"
      by (cases "ensureDirectory w fs dest") auto
    obtain res calls2 where res:
      "resolveImageUrl w (get_prop args ''sourceType'') (get_prop args ''imageSource'')
         (with_default (get_prop args ''quality'') (JStr ''regular'')) = (res, calls2)"
      by (cases "resolveImageUrl w (get_prop args ''sourceType'') (get_prop args ''imageSource'')
         (with_default (get_prop args ''quality'') (JStr ''regular''))") auto
    show ?thesis
    proof (cases made)
      case (Throws e)
      then show ?thesis
        using download_validated[OF valid dest, of w fs] ens
        by (simp add: error_message_simps)
    next
      case (Returns u)
      show ?thesis
      proof (cases res)
        case (Inl env)
        then show ?thesis
          using download_validated[OF valid dest, of w fs] ens res Returns
            resolve_ok[of w _ _ _ env calls2]
          by simp
      next
        case (Inr url)
        then show ?thesis
          using download_validated[OF valid dest, of w fs] ens res Returns
            fetchAndWrite_ok[of w fs1 dest url]
          by (simp split: prod.splits)
      qed
    qed
  qed
qed

text \<open>The blocks of \<^verbatim>\<open>handleDownloadImage\<close>, one by one.\<close>

lemma download_cases:
  obtains
    (invalid) t where "\<not> validated args" "is_error_message t"
      "handleDownloadImage w fs args = (errorEnvelope t, [], fs)"
  | (not_string) "validated args" "\<forall>dest. get_prop args ''destinationPath'' \<noteq> JStr dest"
      "handleDownloadImage w fs args =
         (caught ''Error downloading image: ''
            (dirname_TypeError w (get_prop args ''destinationPath'')), [], fs)"
  | (mkdir_throws) dest e calls1 fs1 where "validated args"
      "get_prop args ''destinationPath'' = JStr dest"
      "ensureDirectory w fs dest = (Throws e, calls1, fs1)"
      "handleDownloadImage w fs args = (caught ''Error downloading image: '' e, calls1, fs1)"
  | (left) dest calls1 fs1 env calls2 where "validated args"
      "get_prop args ''destinationPath'' = JStr dest"
      "ensureDirectory w fs dest = (Returns (), calls1, fs1)"
      "resolveImageUrl w (get_prop args ''sourceType'') (get_prop args ''imageSource'')
         (with_default (get_prop args ''quality'') (JStr ''regular'')) = (Inl env, calls2)"
      "handleDownloadImage w fs args = (env, calls1 @ calls2, fs1)"
  | (fetched) dest calls1 fs1 url calls2 env calls3 fs2 where "validated args"
      "get_prop args ''destinationPath'' = JStr dest"
      "ensureDirectory w fs dest = (Returns (), calls1, fs1)"
      "resolveImageUrl w (get_prop args ''sourceType'') (get_prop args ''imageSource'')
         (with_default (get_prop args ''quality'') (JStr ''regular'')) = (Inr url, calls2)"
      "fetchAndWrite w fs1 dest url = (env, calls3, fs2)"
      "handleDownloadImage w fs args = (env, calls1 @ calls2 @ calls3, fs2)"
proof (cases "validated args")
  case False
  with download_not_validated[of args w fs] invalid show ?thesis by blast
next
  case True
  note valid = this
  show ?thesis
  proof (cases "\<exists>dest. get_prop args ''destinationPath'' = JStr dest")
    case False
    with download_not_string[OF valid, of w fs] not_string valid show ?thesis by blast
  next
    case True
    then obtain dest where dest: "get_prop args ''destinationPath'' = JStr dest" by blast
    obtain made calls1 fs1 where ens: "ensureDirectory w fs dest = (made, calls1, fs1)"
      by (cases "ensureDirectory w fs dest") auto
    obtain res calls2 where res:
      "resolveImageUrl w (get_prop args ''sourceType'') (get_prop args ''imageSource'')
         (with_default (get_prop args ''quality'') (JStr ''regular'')) = (res, calls2)"
      by (cases "resolveImageUrl w (get_prop args ''sourceType'') (get_prop args ''imageSource'')
         (with_default (get_prop args ''quality'') (JStr ''regular''))") auto
    show ?thesis
    proof (cases made)
      case (Throws e)
      with download_validated[OF valid dest, of w fs] ens
      have "handleDownloadImage w fs args = (caught ''Error downloading image: '' e, calls1, fs1)"
        by simp
      with mkdir_throws[OF valid dest] ens Throws show ?thesis by blast
    next
      case (Returns u)
      then have ens': "ensureDirectory w fs dest = (Returns (), calls1, fs1)"
        using ens by simp
      show ?thesis
      proof (cases res)
        case (Inl env)
        with download_validated[OF valid dest, of w fs] ens' res
        have "handleDownloadImage w fs args = (env, calls1 @ calls2, fs1)" by simp
        with left[OF valid dest ens'] res Inl show ?thesis by blast
      next
        case (Inr url)
        obtain env calls3 fs2 where fw: "fetchAndWrite w fs1 dest url = (env, calls3, fs2)"
          by (cases "fetchAndWrite w fs1 dest url") auto
        with download_validated[OF valid dest, of w fs] ens' res Inr
        have "handleDownloadImage w fs args = (env, calls1 @ calls2 @ calls3, fs2)" by simp
        with fetched[OF valid dest ens' _ fw] res Inr show ?thesis by blast
      qed
    qed
  qed
qed

lemma ensureDirectory_calls:
  "fst (snd (ensureDirectory w fs dest)) =
     (if fs_existsSync w fs (path_dirname w dest)
      then [Call_fs_existsSync (path_dirname w dest)]
      else [Call_fs_existsSync (path_dirname w dest), Call_fs_mkdirSync (path_dirname w dest)])"
  by (simp add: ensureDirectory_def Let_def)

lemma resolve_url:
  "st \<noteq> JStr ''id'' \<Longrightarrow> resolveImageUrl w st src q = (Inr src, [])"
  by (simp add: resolveImageUrl_def)

lemma resolve_id_throws:
  "photos_get w src = Throws e \<Longrightarrow>
   resolveImageUrl w (JStr ''id'') src q =
     (Inl (caught ''Error downloading image: '' e), [Call_photos_get src])"
  by (simp add: resolveImageUrl_def)

lemma resolve_id_errors:
  "photos_get w src = Returns (ApiErrors errs) \<Longrightarrow>
   resolveImageUrl w (JStr ''id'') src q =
     (Inl (errorEnvelope (''Unsplash API error: '' @ join '', '' errs)), [Call_photos_get src])"
  by (simp add: resolveImageUrl_def)

lemma resolve_id_track_throws:
  "photos_get w src = Returns (ApiSuccess p) \<Longrightarrow>
   photos_trackDownload w (download_location (photo.links p)) = Throws e \<Longrightarrow>
   resolveImageUrl w (JStr ''id'') src q =
     (Inl (caught ''Error downloading image: '' e),
      [Call_photos_get src, Call_photos_trackDownload (download_location (photo.links p))])"
  by (simp add: resolveImageUrl_def Let_def)

lemma resolve_id_tracked:
  "photos_get w src = Returns (ApiSuccess p) \<Longrightarrow>
   photos_trackDownload w (download_location (photo.links p)) = Returns r \<Longrightarrow>
   resolveImageUrl w (JStr ''id'') src q =
     (Inr (JStr (selectUrl q (urls p))),
      [Call_photos_get src, Call_photos_trackDownload (download_location (photo.links p))])"
  by (simp add: resolveImageUrl_def Let_def)

lemma resolve_get_call:
  "Call_photos_get i \<in> set (snd (resolveImageUrl w st src q)) \<Longrightarrow> st = JStr ''id'' \<and> i = src"
  by (auto simp: resolveImageUrl_def Let_def
      split: if_splits outcome.splits api_response.splits)

lemma fetchAndWrite_calls:
  "\<exists>rest. fst (snd (fetchAndWrite w fs dest url)) = Call_fetch url # rest
     \<and> (rest = [] \<or> (\<exists>buf. rest = [Call_fs_writeFile dest buf]))"
  by (simp add: fetchAndWrite_def split: outcome.splits)

lemma fetchAndWrite_success:
  assumes "fetchAndWrite w fs dest url = (env, calls, fs')" "isError env \<noteq> Some True"
  shows "\<exists>response buf.
           fetch w url = Returns response \<and> ok response \<and> buffer response = Returns buf
           \<and> fs_writeFile w fs dest buf = (Returns (), fs')
           \<and> calls = [Call_fetch url, Call_fs_writeFile dest buf]
           \<and> env = successEnvelope (JSON_stringify (JsonObject
                 [(''success'', JsonBool True),
                  (''message'', JsonString (''Image successfully downloaded to '' @ dest)),
                  (''filePath'', JsonString dest),
                  (''fileSize'', JsonNumber (int (length buf)))]))"
  using assms
  by (auto simp: fetchAndWrite_def caught_def errorEnvelope_def prod_eq_iff
      split: outcome.splits if_splits)

text \<open>Running the handlers in the small world.\<close>

lemmas demo_simps =
  demo_world_def demo_fs0_def demo_download_args_def demo_photo_def demo_dirname_def

lemmas download_simps =
  handleDownloadImage_def ensureDirectory_def resolveImageUrl_def fetchAndWrite_def
  selectUrl_def with_default_def Let_def

lemma demo_download_run:
  "handleDownloadImage demo_world demo_fs0 demo_download_args =
     (successEnvelope (JSON_stringify (JsonObject
        [(''success'', JsonBool True),
         (''message'', JsonString ''Image successfully downloaded to /tmp/out/cat.jpg''),
         (''filePath'', JsonString ''/tmp/out/cat.jpg''),
         (''fileSize'', JsonNumber 3)])),
      [Call_fs_existsSync ''/tmp/out'', Call_fs_mkdirSync ''/tmp/out'',
       Call_photos_get (JStr ''abc123''),
       Call_photos_trackDownload ''https://api/p/abc123/download'',
       Call_fetch (JStr ''https://img/full''),
       Call_fs_writeFile ''/tmp/out/cat.jpg'' [1, 2, 3]],
      \<lparr>directories = [''/tmp/out''], files = [(''/tmp/out/cat.jpg'', [1, 2, 3])]\<rparr>)"
  by (simp add: handleDownloadImage_def ensureDirectory_def resolveImageUrl_def
      fetchAndWrite_def selectUrl_def with_default_def Let_def demo_simps)



text \<open>
  C1. Every envelope a handler returns holds exactly one item, of type \<^verbatim>\<open>text\<close>;
  \<^verbatim>\<open>isError\<close> is \<^verbatim>\<open>true\<close> if and only if the text is one of the handlers' error
  messages; otherwise \<^verbatim>\<open>isError\<close> is absent and the text is a serialised object.
\<close>

theorem envelope_invariant:
  "envelope_ok (fst (handleSearchImages w fs args))
   \<and> envelope_ok (fst (handleGetRandomImage w fs args))
   \<and> envelope_ok (fst (handleGetImageById w fs args))
   \<and> envelope_ok (fst (handleDownloadImage w fs args))"
  by (simp add: search_ok random_ok byid_ok download_ok)

theorem envelope_invariant_witness:
  "envelope_ok (fst (handleDownloadImage demo_world demo_fs0 demo_download_args))
   \<and> isError (fst (handleDownloadImage demo_world demo_fs0 demo_download_args)) = None
   \<and> envelope_ok (fst (handleSearchImages demo_world demo_fs0 JUndefined))
   \<and> isError (fst (handleSearchImages demo_world demo_fs0 JUndefined)) = Some True"
  using envelope_invariant[of demo_world demo_fs0 demo_download_args]
    envelope_invariant[of demo_world demo_fs0 JUndefined]
  by (simp add: demo_download_run successEnvelope_def handleSearchImages_def caught_def
      errorEnvelope_def)

section \<open>Dispatch\<close>

text \<open>
  C2. A name outside the four tools makes the dispatcher throw an \<^verbatim>\<open>McpError\<close> of
  code \<^verbatim>\<open>MethodNotFound\<close> whose message ends with the name, and no envelope comes back;
  each of the four names reaches its own handler.
\<close>

theorem callTool_dispatch:
  "(n \<notin> {''search_images'', ''get_random_image'', ''get_image_by_id'', ''download_image''} \<longrightarrow>
      callTool w fs \<lparr>name = n, arguments = a\<rparr>
        = Inl (McpError MethodNotFound (''Unknown tool: '' @ n))
      \<and> (\<forall>r. callTool w fs \<lparr>name = n, arguments = a\<rparr> \<noteq> Inr r))
   \<and> callTool w fs \<lparr>name = ''search_images'', arguments = a\<rparr> = Inr (handleSearchImages w fs a)
   \<and> callTool w fs \<lparr>name = ''get_random_image'', arguments = a\<rparr>
        = Inr (handleGetRandomImage w fs a)
   \<and> callTool w fs \<lparr>name = ''get_image_by_id'', arguments = a\<rparr>
        = Inr (handleGetImageById w fs a)
   \<and> callTool w fs \<lparr>name = ''download_image'', arguments = a\<rparr>
        = Inr (handleDownloadImage w fs a)"
  by (simp add: callTool_def)

theorem callTool_dispatch_witness:
  "callTool demo_world demo_fs0 \<lparr>name = ''delete_image'', arguments = JUndefined\<rparr>
     = Inl (McpError MethodNotFound ''Unknown tool: delete_image'')"
  using callTool_dispatch[of "''delete_image''" demo_world demo_fs0 JUndefined] by simp

section \<open>Provider errors\<close>

lemma sublist_prepend: "sublist e ys \<Longrightarrow> sublist e (ps @ ys)"
proof -
  assume "sublist e ys"
  then obtain a b where "ys = a @ e @ b" by (auto simp: sublist_def)
  then have "ps @ ys = (ps @ a) @ e @ b" by simp
  then show ?thesis unfolding sublist_def by blast
qed

lemma sublist_join: "e \<in> set errs \<Longrightarrow> sublist e (join sep errs)"
proof (induction sep errs rule: join.induct)
  case (1 sep)
  then show ?case by simp
next
  case (2 sep x)
  then show ?case by simp
next
  case (3 sep x y ys)
  show ?case
  proof (cases "e = x")
    case True
    then show ?thesis by simp
  next
    case False
    with 3 have "sublist e (join sep (y # ys))" by simp
    then have "sublist e ((x @ sep) @ join sep (y # ys))" by (rule sublist_prepend)
    then show ?thesis by simp
  qed
qed

lemma search_errors:
  assumes "Call_search_getPhotos p \<in> set (fst (snd (handleSearchImages w fs args)))"
    and "search_getPhotos w p = Returns (ApiErrors errs)"
  shows "fst (handleSearchImages w fs args)
           = errorEnvelope (''Unsplash API error: '' @ join '', '' errs)"
  using assms
  by (auto simp: handleSearchImages_def Let_def
      split: if_splits outcome.splits api_response.splits)

lemma random_errors:
  assumes "Call_photos_getRandom p \<in> set (fst (snd (handleGetRandomImage w fs args)))"
    and "photos_getRandom w p = Returns (ApiErrors errs)"
  shows "fst (handleGetRandomImage w fs args)
           = errorEnvelope (''Unsplash API error: '' @ join '', '' errs)"
  using assms
  by (auto simp: handleGetRandomImage_def Let_def
      split: if_splits outcome.splits api_response.splits)

lemma byid_errors:
  assumes "Call_photos_get i \<in> set (fst (snd (handleGetImageById w fs args)))"
    and "photos_get w i = Returns (ApiErrors errs)"
  shows "fst (handleGetImageById w fs args)
           = errorEnvelope (''Unsplash API error: '' @ join '', '' errs)"
  using assms
  by (auto simp: handleGetImageById_def Let_def
      split: if_splits outcome.splits api_response.splits)

lemma ensureDirectory_no_get:
  "ensureDirectory w fs dest = (r, calls, fs') \<Longrightarrow> Call_photos_get i \<notin> set calls"
  using ensureDirectory_calls[of w fs dest] by (auto split: if_splits)

lemma fetchAndWrite_no_get:
  "fetchAndWrite w fs dest url = (env, calls, fs') \<Longrightarrow> Call_photos_get i \<notin> set calls"
  using fetchAndWrite_calls[of w fs dest url] by auto

lemma download_errors:
  assumes get: "Call_photos_get i \<in> set (fst (snd (handleDownloadImage w fs args)))"
    and errs: "photos_get w i = Returns (ApiErrors errs)"
  shows "fst (handleDownloadImage w fs args)
           = errorEnvelope (''Unsplash API error: '' @ join '', '' errs)"
proof (cases rule: download_cases[of args w fs])
  case (invalid t)
  with get show ?thesis by simp
next
  case not_string
  with get show ?thesis by simp
next
  case (mkdir_throws dest e calls1 fs1)
  with get ensureDirectory_no_get show ?thesis by fastforce
next
  case (left dest calls1 fs1 env calls2)
  with get ensureDirectory_no_get[OF left(3)] have "Call_photos_get i \<in> set calls2" by simp
  with resolve_get_call[of i w "get_prop args ''sourceType''" "get_prop args ''imageSource''"
      "with_default (get_prop args ''quality'') (JStr ''regular'')"] left(4)
  have "get_prop args ''sourceType'' = JStr ''id''" "i = get_prop args ''imageSource''"
    by simp_all
  with resolve_id_errors[of w i errs] errs left show ?thesis by simp
next
  case (fetched dest calls1 fs1 url calls2 env calls3 fs2)
  with get ensureDirectory_no_get[OF fetched(3)] fetchAndWrite_no_get[OF fetched(5)]
  have "Call_photos_get i \<in> set calls2" by simp
  with resolve_get_call[of i w "get_prop args ''sourceType''" "get_prop args ''imageSource''"
      "with_default (get_prop args ''quality'') (JStr ''regular'')"] fetched(4)
  have "get_prop args ''sourceType'' = JStr ''id''" "i = get_prop args ''imageSource''"
    by simp_all
  with resolve_id_errors[of w i errs] errs fetched(4) show ?thesis by simp
qed

lemma ensureDirectory_tracking:
  "ensureDirectory (w\<lparr>photos_trackDownload := f\<rparr>) fs dest = ensureDirectory w fs dest"
  by (simp add: ensureDirectory_def Let_def)

lemma fetchAndWrite_tracking:
  "fetchAndWrite (w\<lparr>photos_trackDownload := f\<rparr>) fs dest url = fetchAndWrite w fs dest url"
  by (simp add: fetchAndWrite_def split: outcome.splits)

lemma resolve_tracking:
  "resolveImageUrl (w\<lparr>photos_trackDownload := (\<lambda>l. Returns (r1 l))\<rparr>) st src q
     = resolveImageUrl (w\<lparr>photos_trackDownload := (\<lambda>l. Returns (r2 l))\<rparr>) st src q"
  by (simp add: resolveImageUrl_def Let_def split: outcome.splits api_response.splits)

lemma download_tracking_result_unread:
  "handleDownloadImage (w\<lparr>photos_trackDownload := (\<lambda>l. Returns (r1 l))\<rparr>) fs args
     = handleDownloadImage (w\<lparr>photos_trackDownload := (\<lambda>l. Returns (r2 l))\<rparr>) fs args"
  unfolding handleDownloadImage_def
  by (simp add: Let_def ensureDirectory_tracking fetchAndWrite_tracking
      resolve_tracking[where ?r1.0 = r1 and ?r2.0 = r2]
      cong: if_cong prod.case_cong outcome.case_cong sum.case_cong jsval.case_cong)

text \<open>
  C3, as amended. When a handler has called the provider for its data (the search,
  the random photo, the photo by id, also inside \<^verbatim>\<open>download_image\<close>) and the answer
  carries an error list, the handler returns the error envelope whose text is
  \<^verbatim>\<open>Unsplash API error: \<close> followed by the errors joined with a comma and a space; each
  error string occurs in that text. A handler returns an envelope in every case: its
  result has no other form. What the download-tracking call returns is not read: an
  invocation ends the same way whether that call returns an error list or a success.
\<close>

theorem lookup_errors_become_error_envelopes:
  "(Call_search_getPhotos sp \<in> set (fst (snd (handleSearchImages w fs args)))
      \<and> search_getPhotos w sp = Returns (ApiErrors errs) \<longrightarrow>
        fst (handleSearchImages w fs args)
          = errorEnvelope (''Unsplash API error: '' @ join '', '' errs))
   \<and> (Call_photos_getRandom rp \<in> set (fst (snd (handleGetRandomImage w fs args)))
      \<and> photos_getRandom w rp = Returns (ApiErrors errs) \<longrightarrow>
        fst (handleGetRandomImage w fs args)
          = errorEnvelope (''Unsplash API error: '' @ join '', '' errs))
   \<and> (Call_photos_get i \<in> set (fst (snd (handleGetImageById w fs args)))
      \<and> photos_get w i = Returns (ApiErrors errs) \<longrightarrow>
        fst (handleGetImageById w fs args)
          = errorEnvelope (''Unsplash API error: '' @ join '', '' errs))
   \<and> (Call_photos_get i \<in> set (fst (snd (handleDownloadImage w fs args)))
      \<and> photos_get w i = Returns (ApiErrors errs) \<longrightarrow>
        fst (handleDownloadImage w fs args)
          = errorEnvelope (''Unsplash API error: '' @ join '', '' errs))
   \<and> (\<forall>e \<in> set errs. sublist e (''Unsplash API error: '' @ join '', '' errs))
   \<and> handleDownloadImage (w\<lparr>photos_trackDownload := (\<lambda>l. Returns (ApiErrors (terrs l)))\<rparr>)
        fs args
       = handleDownloadImage (w\<lparr>photos_trackDownload := (\<lambda>l. Returns (ApiSuccess l))\<rparr>)
        fs args"
proof -
  have "sublist e (''Unsplash API error: '' @ join '', '' errs)" if "e \<in> set errs" for e
    using sublist_join[OF that, of "'', ''"] by (rule sublist_prepend)
  then show ?thesis
    using search_errors[of sp w fs args errs] random_errors[of rp w fs args errs]
      byid_errors[of i w fs args errs] download_errors[of i w fs args errs]
      download_tracking_result_unread
        [where ?r1.0 = "\<lambda>l. ApiErrors (terrs l)" and ?r2.0 = ApiSuccess and w = w
           and fs = fs and args = args]
    by blast
qed

theorem lookup_errors_become_error_envelopes_witness:
  "fst (handleDownloadImage demo_world demo_fs0
          (JObj [(''imageSource'', JStr ''nope''), (''sourceType'', JStr ''id''),
                 (''destinationPath'', JStr ''/tmp/out/cat.jpg'')]))
     = errorEnvelope ''Unsplash API error: Not found, Bad id''
   \<and> sublist ''Bad id'' ''Unsplash API error: Not found, Bad id''"
proof -
  let ?args = "JObj [(''imageSource'', JStr ''nope''), (''sourceType'', JStr ''id''),
                 (''destinationPath'', JStr ''/tmp/out/cat.jpg'')]"
  have reached: "Call_photos_get (JStr ''nope'')
      \<in> set (fst (snd (handleDownloadImage demo_world demo_fs0 ?args)))"
    by (simp add: download_simps demo_simps)
  have answer: "photos_get demo_world (JStr ''nope'') = Returns (ApiErrors [''Not found'', ''Bad id''])"
    by (simp add: demo_world_def)
  from lookup_errors_become_error_envelopes
    [where w = demo_world and fs = demo_fs0 and args = ?args
       and errs = "[''Not found'', ''Bad id'']" and i = "JStr ''nope''"]
    reached answer
  show ?thesis by simp
qed

text \<open>
  The claim as first stated covers every provider response. The tracking call is a
  provider call too, and its error list leaves the envelope a success.
\<close>

theorem tracking_errors_ignored_counterexample:
  "photos_trackDownload demo_world ''https://api/p/abc123/download''
     = Returns (ApiErrors [''Rate limit exceeded''])
   \<and> Call_photos_trackDownload ''https://api/p/abc123/download''
       \<in> set (fst (snd (handleDownloadImage demo_world demo_fs0 demo_download_args)))
   \<and> isError (fst (handleDownloadImage demo_world demo_fs0 demo_download_args)) = None"
proof -
  have "photos_trackDownload demo_world ''https://api/p/abc123/download''
     = Returns (ApiErrors [''Rate limit exceeded''])"
    by (simp add: demo_world_def)
  then show ?thesis
    by (simp add: demo_download_run successEnvelope_def)
qed

section \<open>Missing arguments\<close>

text \<open>
  C4. Without \<^verbatim>\<open>query\<close>, \<^verbatim>\<open>search_images\<close> returns an envelope with \<^verbatim>\<open>isError\<close>
  \<^verbatim>\<open>true\<close> and makes no call at all, so none to the provider; the same for
  \<^verbatim>\<open>get_image_by_id\<close> without \<^verbatim>\<open>id\<close> and for \<^verbatim>\<open>download_image\<close> without
  \<^verbatim>\<open>imageSource\<close>, \<^verbatim>\<open>sourceType\<close> or \<^verbatim>\<open>destinationPath\<close>. An omitted
  \<^verbatim>\<open>arguments\<close> object is the case where every member is missing.
  \<^verbatim>\<open>get_random_image\<close> requires nothing.
\<close>

theorem missing_required_argument:
  "(get_prop args ''query'' = JUndefined \<longrightarrow>
      isError (fst (handleSearchImages w fs args)) = Some True
      \<and> snd (handleSearchImages w fs args) = ([], fs))
   \<and> (get_prop args ''id'' = JUndefined \<longrightarrow>
      isError (fst (handleGetImageById w fs args)) = Some True
      \<and> snd (handleGetImageById w fs args) = ([], fs))
   \<and> (get_prop args ''imageSource'' = JUndefined \<or> get_prop args ''sourceType'' = JUndefined
        \<or> get_prop args ''destinationPath'' = JUndefined \<longrightarrow>
      isError (fst (handleDownloadImage w fs args)) = Some True
      \<and> snd (handleDownloadImage w fs args) = ([], fs))"
proof -
  have dl: "isError (fst (handleDownloadImage w fs args)) = Some True
      \<and> snd (handleDownloadImage w fs args) = ([], fs)" if "\<not> validated args"
    using download_not_validated[OF that, of w fs] by (auto simp: errorEnvelope_def)
  have nv: "\<not> validated args"
    if "get_prop args ''imageSource'' = JUndefined \<or> get_prop args ''sourceType'' = JUndefined
        \<or> get_prop args ''destinationPath'' = JUndefined"
    using that unfolding validated_def by auto
  show ?thesis
    using dl nv
    by (simp add: handleSearchImages_def handleGetImageById_def Let_def caught_def
        errorEnvelope_def)
qed

theorem missing_required_argument_witness:
  "isError (fst (handleSearchImages demo_world demo_fs0 (JObj [(''page'', JNum 2)]))) = Some True
   \<and> snd (handleSearchImages demo_world demo_fs0 (JObj [(''page'', JNum 2)])) = ([], demo_fs0)
   \<and> isError (fst (handleDownloadImage demo_world demo_fs0
                     (JObj [(''imageSource'', JStr ''abc123''), (''sourceType'', JStr ''id'')])))
       = Some True
   \<and> snd (handleDownloadImage demo_world demo_fs0
            (JObj [(''imageSource'', JStr ''abc123''), (''sourceType'', JStr ''id'')]))
       = ([], demo_fs0)"
  using missing_required_argument[of "JObj [(''page'', JNum 2)]" demo_world demo_fs0]
    missing_required_argument
      [of "JObj [(''imageSource'', JStr ''abc123''), (''sourceType'', JStr ''id'')]"
          demo_world demo_fs0]
  by simp

section \<open>Clamping\<close>

lemma search_call:
  assumes "args \<noteq> JUndefined" "args \<noteq> JNull" "truthy (get_prop args ''query'')"
    "typeof (get_prop args ''query'') = ''string''"
  shows "fst (snd (handleSearchImages w fs args)) =
     [Call_search_getPhotos
        \<lparr>search_params.query = get_prop args ''query'',
         page = with_default (get_prop args ''page'') (JNum 1),
         perPage = Math_min (ToNumber w (with_default (get_prop args ''perPage'') (JNum 10)))
                     (Finite 30),
         orientation = get_prop args ''orientation''\<rparr>]"
  using assms
  by (simp add: handleSearchImages_def Let_def split: outcome.splits api_response.splits)

lemma random_call:
  assumes "args \<noteq> JUndefined" "args \<noteq> JNull"
  shows "fst (snd (handleGetRandomImage w fs args)) =
     [Call_photos_getRandom
        \<lparr>random_params.query = get_prop args ''query'',
         orientation = get_prop args ''orientation'',
         count = Math_min (ToNumber w (with_default (get_prop args ''count'') (JNum 1)))
                   (Finite 30)\<rparr>]"
  using assms
  by (simp add: handleGetRandomImage_def Let_def split: outcome.splits api_response.splits)

lemma clamp_cases:
  "(v = JUndefined \<longrightarrow> Math_min (ToNumber w (with_default v (JNum d))) (Finite 30) = Finite (min d 30))
   \<and> (\<forall>n. v = JNum n \<longrightarrow>
         Math_min (ToNumber w (with_default v (JNum d))) (Finite 30) = Finite (min n 30))"
  by (simp add: with_default_def)

text \<open>
  C9. A \<^verbatim>\<open>search_images\<close> invocation with a valid query calls the provider once, with
  \<^verbatim>\<open>perPage\<close> equal to \<^verbatim>\<open>Math.min(perPage, 30)\<close>: 10 when \<^verbatim>\<open>perPage\<close> is omitted,
  the minimum of \<open>n\<close> and 30 when it is the number \<open>n\<close>, so 30 for 1000. A
  \<^verbatim>\<open>get_random_image\<close> invocation calls the provider once, with \<^verbatim>\<open>count\<close> equal to
  \<^verbatim>\<open>Math.min(count, 30)\<close>: 1 when omitted, the minimum of \<open>n\<close> and 30 for the number \<open>n\<close>.
\<close>

theorem perPage_and_count_clamped:
  "(args \<noteq> JUndefined \<and> args \<noteq> JNull \<and> truthy (get_prop args ''query'')
      \<and> typeof (get_prop args ''query'') = ''string'' \<longrightarrow>
      (\<exists>p. fst (snd (handleSearchImages w fs args)) = [Call_search_getPhotos p]
         \<and> perPage p = Math_min (ToNumber w (with_default (get_prop args ''perPage'') (JNum 10)))
                          (Finite 30)
         \<and> (get_prop args ''perPage'' = JUndefined \<longrightarrow> perPage p = Finite 10)
         \<and> (\<forall>n. get_prop args ''perPage'' = JNum n \<longrightarrow> perPage p = Finite (min n 30))
         \<and> (get_prop args ''perPage'' = JNum 1000 \<longrightarrow> perPage p = Finite 30)))
   \<and> (args \<noteq> JUndefined \<and> args \<noteq> JNull \<longrightarrow>
      (\<exists>p. fst (snd (handleGetRandomImage w fs args)) = [Call_photos_getRandom p]
         \<and> count p = Math_min (ToNumber w (with_default (get_prop args ''count'') (JNum 1)))
                        (Finite 30)
         \<and> (get_prop args ''count'' = JUndefined \<longrightarrow> count p = Finite 1)
         \<and> (\<forall>n. get_prop args ''count'' = JNum n \<longrightarrow> count p = Finite (min n 30))))"
  using search_call[of args w fs] random_call[of args w fs]
    clamp_cases[of "get_prop args ''perPage''" w 10] clamp_cases[of "get_prop args ''count''" w 1]
  by simp

theorem perPage_and_count_clamped_witness:
  "fst (snd (handleSearchImages demo_world demo_fs0
               (JObj [(''query'', JStr ''cats''), (''perPage'', JNum 1000)])))
     = [Call_search_getPhotos
          \<lparr>search_params.query = JStr ''cats'', page = JNum 1, perPage = Finite 30,
           orientation = JUndefined\<rparr>]
   \<and> fst (snd (handleGetRandomImage demo_world demo_fs0 (JObj [(''count'', JNum 3)])))
     = [Call_photos_getRandom
          \<lparr>random_params.query = JUndefined, orientation = JUndefined, count = Finite 3\<rparr>]"
  using perPage_and_count_clamped
    [of "JObj [(''query'', JStr ''cats''), (''perPage'', JNum 1000)]" demo_world demo_fs0]
    perPage_and_count_clamped[of "JObj [(''count'', JNum 3)]" demo_world demo_fs0]
  by (simp add: handleSearchImages_def handleGetRandomImage_def Let_def with_default_def
      demo_world_def)

section \<open>Random images\<close>

lemma random_single:
  assumes "Call_photos_getRandom rp \<in> set (fst (snd (handleGetRandomImage w fs args)))"
    and "photos_getRandom w rp = Returns (ApiSuccess (Single p))"
  shows "fst (handleGetRandomImage w fs args)
           = successEnvelope (JSON_stringify (JsonObject [(''images'', JsonArray [formatPhoto p])]))"
  using assms
  by (auto simp: handleGetRandomImage_def Let_def
      split: if_splits outcome.splits api_response.splits)

lemma random_many:
  assumes "Call_photos_getRandom rp \<in> set (fst (snd (handleGetRandomImage w fs args)))"
    and "photos_getRandom w rp = Returns (ApiSuccess (Many ps))"
  shows "fst (handleGetRandomImage w fs args)
           = successEnvelope (JSON_stringify (JsonObject
               [(''images'', JsonArray (map formatPhoto ps))]))"
  using assms
  by (auto simp: handleGetRandomImage_def Let_def
      split: if_splits outcome.splits api_response.splits)

text \<open>
  C8. When \<^verbatim>\<open>get_random_image\<close> has called the provider and the answer is a single
  photo, the payload is \<^verbatim>\<open>{images: [...]}\<close> with the one projection; when the answer
  is an array, \<^verbatim>\<open>images\<close> holds the projections of its elements in order. Every
  envelope without \<^verbatim>\<open>isError\<close> arises in one of these two ways. The arguments,
  \<^verbatim>\<open>count\<close> among them, are arbitrary: only the shape of the answer decides.
\<close>

theorem random_images_shape:
  "(Call_photos_getRandom rp \<in> set (fst (snd (handleGetRandomImage w fs args)))
      \<and> photos_getRandom w rp = Returns (ApiSuccess (Single p)) \<longrightarrow>
        fst (handleGetRandomImage w fs args)
          = successEnvelope (JSON_stringify (JsonObject
              [(''images'', JsonArray [formatPhoto p])])))
   \<and> (Call_photos_getRandom rp \<in> set (fst (snd (handleGetRandomImage w fs args)))
      \<and> photos_getRandom w rp = Returns (ApiSuccess (Many ps)) \<longrightarrow>
        fst (handleGetRandomImage w fs args)
          = successEnvelope (JSON_stringify (JsonObject
              [(''images'', JsonArray (map formatPhoto ps))])))
   \<and> (isError (fst (handleGetRandomImage w fs args)) \<noteq> Some True \<longrightarrow>
        (\<exists>rp' response.
           fst (snd (handleGetRandomImage w fs args)) = [Call_photos_getRandom rp']
           \<and> photos_getRandom w rp' = Returns (ApiSuccess response)
           \<and> fst (handleGetRandomImage w fs args)
               = successEnvelope (JSON_stringify (JsonObject
                   [(''images'',
                     JsonArray (case response of Single q \<Rightarrow> [formatPhoto q]
                                | Many qs \<Rightarrow> map formatPhoto qs))]))))"
proof -
  have "\<exists>rp' response.
           fst (snd (handleGetRandomImage w fs args)) = [Call_photos_getRandom rp']
           \<and> photos_getRandom w rp' = Returns (ApiSuccess response)
           \<and> fst (handleGetRandomImage w fs args)
               = successEnvelope (JSON_stringify (JsonObject
                   [(''images'',
                     JsonArray (case response of Single q \<Rightarrow> [formatPhoto q]
                                | Many qs \<Rightarrow> map formatPhoto qs))]))"
    if "isError (fst (handleGetRandomImage w fs args)) \<noteq> Some True"
    using that
    by (auto simp: handleGetRandomImage_def Let_def caught_def errorEnvelope_def
        split: if_splits outcome.splits api_response.splits random_response.splits)
  then show ?thesis
    using random_single[of rp w fs args p] random_many[of rp w fs args ps] by blast
qed

theorem random_images_shape_witness:
  "fst (handleGetRandomImage demo_world demo_fs0 (JObj []))
     = successEnvelope (JSON_stringify (JsonObject [(''images'', JsonArray [formatPhoto demo_photo])]))
   \<and> fst (handleGetRandomImage demo_world demo_fs0 (JObj [(''count'', JNum 3)]))
     = successEnvelope (JSON_stringify (JsonObject
         [(''images'', JsonArray [formatPhoto demo_photo, formatPhoto demo_photo])]))"
proof -
  let ?p1 = "\<lparr>random_params.query = JUndefined, orientation = JUndefined, count = Finite 1\<rparr>"
  let ?p3 = "\<lparr>random_params.query = JUndefined, orientation = JUndefined, count = Finite 3\<rparr>"
  have c1: "Call_photos_getRandom ?p1
      \<in> set (fst (snd (handleGetRandomImage demo_world demo_fs0 (JObj []))))"
    by (simp add: handleGetRandomImage_def Let_def with_default_def demo_world_def)
  have a1: "photos_getRandom demo_world ?p1 = Returns (ApiSuccess (Single demo_photo))"
    by (simp add: demo_world_def)
  have c3: "Call_photos_getRandom ?p3
      \<in> set (fst (snd (handleGetRandomImage demo_world demo_fs0 (JObj [(''count'', JNum 3)]))))"
    by (simp add: handleGetRandomImage_def Let_def with_default_def demo_world_def)
  have a3: "photos_getRandom demo_world ?p3 = Returns (ApiSuccess (Many [demo_photo, demo_photo]))"
    by (simp add: demo_world_def)
  from random_images_shape[of ?p1 demo_world demo_fs0 "JObj []" demo_photo] c1 a1
    random_images_shape[of ?p3 demo_world demo_fs0 "JObj [(''count'', JNum 3)]" _
      "[demo_photo, demo_photo]"] c3 a3
  show ?thesis by simp
qed

section \<open>The download\<close>

lemma ensureDirectory_returns:
  assumes "ensureDirectory w fs dest = (Returns (), calls1, fs1)"
  shows "calls1 = (if fs_existsSync w fs (path_dirname w dest)
                   then [Call_fs_existsSync (path_dirname w dest)]
                   else [Call_fs_existsSync (path_dirname w dest),
                         Call_fs_mkdirSync (path_dirname w dest)])"
    and "fs_existsSync w fs (path_dirname w dest) \<Longrightarrow> fs1 = fs"
    and "\<not> fs_existsSync w fs (path_dirname w dest) \<Longrightarrow>
           fs_mkdirSync w fs (path_dirname w dest) = (Returns (), fs1)"
  using assms by (auto simp: ensureDirectory_def Let_def prod_eq_iff split: if_splits)

lemma ensureDirectory_throws:
  assumes "ensureDirectory w fs dest = (Throws e, calls1, fs1)"
  shows "\<not> fs_existsSync w fs (path_dirname w dest)"
    and "fst (fs_mkdirSync w fs (path_dirname w dest)) = Throws e"
    and "calls1 = [Call_fs_existsSync (path_dirname w dest),
                   Call_fs_mkdirSync (path_dirname w dest)]"
  using assms by (auto simp: ensureDirectory_def Let_def split: if_splits)

lemma resolve_left_calls:
  "resolveImageUrl w st src q = (Inl env, calls2) \<Longrightarrow>
     calls2 \<noteq> [] \<and> hd calls2 = Call_photos_get src"
  by (auto simp: resolveImageUrl_def Let_def
      split: if_splits outcome.splits api_response.splits)

lemma fetchAndWrite_fs:
  "fetchAndWrite w fs1 dest url = (env, calls3, fs2) \<Longrightarrow>
     fs2 = fs1 \<or> (\<exists>buf. fs2 = snd (fs_writeFile w fs1 dest buf))"
  by (auto simp: fetchAndWrite_def split: outcome.splits if_splits)

lemma fetchAndWrite_head:
  "fetchAndWrite w fs1 dest url = (env, calls3, fs2) \<Longrightarrow>
     calls3 \<noteq> [] \<and> hd calls3 = Call_fetch url"
  using fetchAndWrite_calls[of w fs1 dest url] by auto

lemma selectUrl_cases:
  "(q = JStr ''raw'' \<longrightarrow> selectUrl (with_default q (JStr ''regular'')) us = raw us)
   \<and> (q = JStr ''full'' \<longrightarrow> selectUrl (with_default q (JStr ''regular'')) us = full us)
   \<and> (q = JStr ''regular'' \<longrightarrow> selectUrl (with_default q (JStr ''regular'')) us = regular us)
   \<and> (q = JStr ''small'' \<longrightarrow> selectUrl (with_default q (JStr ''regular'')) us = small us)
   \<and> (q = JStr ''thumb'' \<longrightarrow> selectUrl (with_default q (JStr ''regular'')) us = thumb us)
   \<and> (q \<notin> {JStr ''raw'', JStr ''full'', JStr ''regular'', JStr ''small'', JStr ''thumb''} \<longrightarrow>
        selectUrl (with_default q (JStr ''regular'')) us = regular us)"
  by (simp add: selectUrl_def with_default_def)

lemma resolve_right_id:
  assumes "resolveImageUrl w (JStr ''id'') src q = (Inr url, calls2)"
  shows "\<exists>p r. photos_get w src = Returns (ApiSuccess p)
           \<and> photos_trackDownload w (download_location (photo.links p)) = Returns r
           \<and> url = JStr (selectUrl q (urls p))
           \<and> calls2 = [Call_photos_get src,
                        Call_photos_trackDownload (download_location (photo.links p))]"
  using assms
  by (auto simp: resolveImageUrl_def Let_def split: outcome.splits api_response.splits)

lemma ensureDirectory_only_fs:
  assumes "ensureDirectory w fs dest = (r, calls, fs')"
  shows "Call_fetch u \<notin> set calls" and "Call_photos_trackDownload l \<notin> set calls"
  using assms ensureDirectory_calls[of w fs dest] by (auto split: if_splits)

lemma resolve_no_fetch:
  "resolveImageUrl w st src q = (res, calls2) \<Longrightarrow> Call_fetch u \<notin> set calls2"
  by (auto simp: resolveImageUrl_def Let_def
      split: if_splits outcome.splits api_response.splits)

lemma fetchAndWrite_only_fetch:
  assumes "fetchAndWrite w fs dest url = (env, calls3, fs2)"
  shows "Call_fetch u \<in> set calls3 \<longleftrightarrow> u = url"
    and "Call_photos_trackDownload l \<notin> set calls3"
  using assms fetchAndWrite_calls[of w fs dest url] by auto

lemma ensureDirectory_ok:
  assumes "fs_existsSync w fs (path_dirname w dest)
           \<or> fst (fs_mkdirSync w fs (path_dirname w dest)) = Returns ()"
  shows "fst (ensureDirectory w fs dest) = Returns ()"
  using assms by (auto simp: ensureDirectory_def Let_def)

lemma demo_failing_run:
  "handleDownloadImage demo_world demo_fs0 demo_failing_args =
     (errorEnvelope ''Unsplash API error: Not found, Bad id'',
      [Call_fs_existsSync ''/tmp/out'', Call_fs_mkdirSync ''/tmp/out'',
       Call_photos_get (JStr ''nope'')],
      \<lparr>directories = [''/tmp/out''], files = []\<rparr>)"
  by (simp add: download_simps demo_simps demo_failing_args_def)

text \<open>
  C7. When \<^verbatim>\<open>download_image\<close> returns an envelope without \<^verbatim>\<open>isError\<close>, its payload
  has \<^verbatim>\<open>success\<close> \<^verbatim>\<open>true\<close>, \<^verbatim>\<open>filePath\<close> equal to the requested
  \<^verbatim>\<open>destinationPath\<close>, and \<^verbatim>\<open>fileSize\<close> equal to the length of the buffer that the
  last call, \<^verbatim>\<open>fs.writeFile\<close>, wrote to that path without throwing.
\<close>

theorem download_outcome:
  assumes run: "handleDownloadImage w fs args = (env, calls, fs')"
    and success: "isError env \<noteq> Some True"
  shows "\<exists>dest buf fs1 calls0.
           get_prop args ''destinationPath'' = JStr dest
           \<and> env = successEnvelope (JSON_stringify (JsonObject
                 [(''success'', JsonBool True),
                  (''message'', JsonString (''Image successfully downloaded to '' @ dest)),
                  (''filePath'', JsonString dest),
                  (''fileSize'', JsonNumber (int (length buf)))]))
           \<and> calls = calls0 @ [Call_fs_writeFile dest buf]
           \<and> fs_writeFile w fs1 dest buf = (Returns (), fs')"
proof (cases rule: download_cases[of args w fs])
  case (invalid t)
  with run success show ?thesis by (auto simp: errorEnvelope_def)
next
  case not_string
  with run success show ?thesis by (auto simp: caught_def errorEnvelope_def)
next
  case (mkdir_throws dest e calls1 fs1)
  with run success show ?thesis by (auto simp: caught_def errorEnvelope_def)
next
  case (left dest calls1 fs1 env' calls2)
  from left(5) run have "env' = env" by simp
  with resolve_ok[OF left(4)] success left(4) show ?thesis
    by (auto simp: resolveImageUrl_def Let_def caught_def errorEnvelope_def
        split: if_splits outcome.splits api_response.splits)
next
  case (fetched dest calls1 fs1 url calls2 env' calls3 fs2)
  from fetched(6) run have eq: "env' = env" "calls = calls1 @ calls2 @ calls3" "fs2 = fs'"
    by simp_all
  from fetchAndWrite_success[OF fetched(5)] success eq(1)
  obtain buf where
    "fs_writeFile w fs1 dest buf = (Returns (), fs2)"
    "calls3 = [Call_fetch url, Call_fs_writeFile dest buf]"
    "env' = successEnvelope (JSON_stringify (JsonObject
                 [(''success'', JsonBool True),
                  (''message'', JsonString (''Image successfully downloaded to '' @ dest)),
                  (''filePath'', JsonString dest),
                  (''fileSize'', JsonNumber (int (length buf)))]))"
    by blast
  with eq fetched(2) show ?thesis
    by (intro exI[of _ dest] exI[of _ buf] exI[of _ fs1]
        exI[of _ "calls1 @ calls2 @ [Call_fetch url]"]) simp
qed

theorem download_outcome_witness:
  "isError (fst (handleDownloadImage demo_world demo_fs0 demo_download_args)) \<noteq> Some True
   \<and> (\<exists>dest buf fs1 calls0.
        get_prop demo_download_args ''destinationPath'' = JStr dest
        \<and> fst (handleDownloadImage demo_world demo_fs0 demo_download_args)
            = successEnvelope (JSON_stringify (JsonObject
                 [(''success'', JsonBool True),
                  (''message'', JsonString (''Image successfully downloaded to '' @ dest)),
                  (''filePath'', JsonString dest),
                  (''fileSize'', JsonNumber (int (length buf)))]))
        \<and> fst (snd (handleDownloadImage demo_world demo_fs0 demo_download_args))
            = calls0 @ [Call_fs_writeFile dest buf]
        \<and> fs_writeFile demo_world fs1 dest buf
            = (Returns (), snd (snd (handleDownloadImage demo_world demo_fs0 demo_download_args))))"
proof -
  have ok: "isError (successEnvelope t) \<noteq> Some True" for t
    by (simp add: successEnvelope_def)
  from download_outcome[OF demo_download_run ok] ok show ?thesis
    by (simp add: demo_download_run)
qed

text \<open>
  C6. In a \<^verbatim>\<open>download_image\<close> invocation with \<^verbatim>\<open>sourceType\<close> \<^verbatim>\<open>id\<close>, any URL fetched
  is the member of the photo's \<^verbatim>\<open>urls\<close> that \<^verbatim>\<open>quality\<close> names when it is one of
  \<^verbatim>\<open>raw\<close>, \<^verbatim>\<open>full\<close>, \<^verbatim>\<open>regular\<close>, \<^verbatim>\<open>small\<close>, \<^verbatim>\<open>thumb\<close>, and the \<^verbatim>\<open>regular\<close> member
  when \<^verbatim>\<open>quality\<close> is omitted or anything else; and a URL is fetched whenever the
  directory step, the lookup and the tracking call did not throw or report errors.
\<close>

theorem quality_selects_url:
  assumes valid: "validated args"
    and id: "get_prop args ''sourceType'' = JStr ''id''"
    and run: "handleDownloadImage w fs args = (env, calls, fs')"
  shows "(\<forall>u. Call_fetch u \<in> set calls \<longrightarrow>
           (\<exists>p. photos_get w (get_prop args ''imageSource'') = Returns (ApiSuccess p)
              \<and> (get_prop args ''quality'' = JStr ''raw'' \<longrightarrow> u = JStr (raw (urls p)))
              \<and> (get_prop args ''quality'' = JStr ''full'' \<longrightarrow> u = JStr (full (urls p)))
              \<and> (get_prop args ''quality'' = JStr ''regular'' \<longrightarrow> u = JStr (regular (urls p)))
              \<and> (get_prop args ''quality'' = JStr ''small'' \<longrightarrow> u = JStr (small (urls p)))
              \<and> (get_prop args ''quality'' = JStr ''thumb'' \<longrightarrow> u = JStr (thumb (urls p)))
              \<and> (get_prop args ''quality''
                    \<notin> {JStr ''raw'', JStr ''full'', JStr ''regular'', JStr ''small'', JStr ''thumb''}
                  \<longrightarrow> u = JStr (regular (urls p)))))
     \<and> (\<forall>dest p r.
           get_prop args ''destinationPath'' = JStr dest
           \<and> (fs_existsSync w fs (path_dirname w dest)
                \<or> fst (fs_mkdirSync w fs (path_dirname w dest)) = Returns ())
           \<and> photos_get w (get_prop args ''imageSource'') = Returns (ApiSuccess p)
           \<and> photos_trackDownload w (download_location (photo.links p)) = Returns r
           \<longrightarrow> (\<exists>u. Call_fetch u \<in> set calls))"
proof (cases rule: download_cases[of args w fs])
  case (invalid t)
  with valid show ?thesis by simp
next
  case not_string
  with run show ?thesis by auto
next
  case (mkdir_throws dest e calls1 fs1)
  from mkdir_throws(4) run have "calls = calls1" by simp
  with ensureDirectory_only_fs(1)[OF mkdir_throws(3)] ensureDirectory_ok[of w fs dest]
    mkdir_throws(2,3)
  show ?thesis by auto
next
  case (left dest calls1 fs1 env' calls2)
  from left(5) run have c: "calls = calls1 @ calls2" by simp
  have nofetch: "Call_fetch u \<notin> set calls" for u
    using c ensureDirectory_only_fs(1)[OF left(3)] resolve_no_fetch[OF left(4)] by simp
  have "\<not> (photos_get w (get_prop args ''imageSource'') = Returns (ApiSuccess p)
      \<and> photos_trackDownload w (download_location (photo.links p)) = Returns r)" for p r
    using resolve_id_tracked[of w "get_prop args ''imageSource''" p r] left(4) id by auto
  with nofetch show ?thesis by blast
next
  case (fetched dest calls1 fs1 url calls2 env' calls3 fs2)
  from fetched(6) run have c: "calls = calls1 @ calls2 @ calls3" by simp
  have iff: "Call_fetch u \<in> set calls \<longleftrightarrow> u = url" for u
    using c ensureDirectory_only_fs(1)[OF fetched(3)] resolve_no_fetch[OF fetched(4)]
      fetchAndWrite_only_fetch(1)[OF fetched(5)] by simp
  from fetched(4) id
  have "resolveImageUrl w (JStr ''id'') (get_prop args ''imageSource'')
         (with_default (get_prop args ''quality'') (JStr ''regular'')) = (Inr url, calls2)"
    by simp
  from resolve_right_id[OF this]
  obtain p where p: "photos_get w (get_prop args ''imageSource'') = Returns (ApiSuccess p)"
    "url = JStr (selectUrl (with_default (get_prop args ''quality'') (JStr ''regular'')) (urls p))"
    by blast
  show ?thesis
    using iff p selectUrl_cases[of "get_prop args ''quality''" "urls p"] by auto
qed

theorem quality_selects_url_witness:
  "validated demo_download_args
   \<and> get_prop demo_download_args ''sourceType'' = JStr ''id''
   \<and> get_prop demo_download_args ''quality'' = JStr ''full''
   \<and> Call_fetch (JStr (full (urls demo_photo)))
        \<in> set (fst (snd (handleDownloadImage demo_world demo_fs0 demo_download_args)))
   \<and> Call_fetch (JStr (regular (urls demo_photo)))
        \<notin> set (fst (snd (handleDownloadImage demo_world demo_fs0 demo_download_args)))"
proof -
  have valid: "validated demo_download_args"
    by (simp add: validated_def demo_download_args_def)
  have id: "get_prop demo_download_args ''sourceType'' = JStr ''id''"
    by (simp add: demo_download_args_def)
  have q: "get_prop demo_download_args ''quality'' = JStr ''full''"
    by (simp add: demo_download_args_def)
  have src: "photos_get demo_world (get_prop demo_download_args ''imageSource'')
      = Returns (ApiSuccess demo_photo)"
    by (simp add: demo_download_args_def demo_world_def)
  have dest: "get_prop demo_download_args ''destinationPath'' = JStr ''/tmp/out/cat.jpg''"
    by (simp add: demo_download_args_def)
  have mk: "fst (fs_mkdirSync demo_world demo_fs0 (path_dirname demo_world ''/tmp/out/cat.jpg''))
      = Returns ()"
    by (simp add: demo_world_def)
  have tr: "photos_trackDownload demo_world (download_location (photo.links demo_photo))
      = Returns (ApiErrors [''Rate limit exceeded''])"
    by (simp add: demo_world_def)
  have differ: "regular (urls demo_photo) \<noteq> full (urls demo_photo)"
    by (simp add: demo_photo_def)
  note sel = quality_selects_url[OF valid id demo_download_run]
  from sel src q have only: "\<forall>u. Call_fetch u
            \<in> set (fst (snd (handleDownloadImage demo_world demo_fs0 demo_download_args)))
          \<longrightarrow> u = JStr (full (urls demo_photo))"
    unfolding demo_download_run by fastforce
  moreover from sel dest mk src tr have "\<exists>u. Call_fetch u
            \<in> set (fst (snd (handleDownloadImage demo_world demo_fs0 demo_download_args)))"
    unfolding demo_download_run by (metis fst_conv snd_conv)
  ultimately have "Call_fetch (JStr (full (urls demo_photo)))
        \<in> set (fst (snd (handleDownloadImage demo_world demo_fs0 demo_download_args)))"
    by blast
  moreover from only differ have "Call_fetch (JStr (regular (urls demo_photo)))
        \<notin> set (fst (snd (handleDownloadImage demo_world demo_fs0 demo_download_args)))"
    by blast
  ultimately show ?thesis using valid id q by blast
qed

text \<open>
  C5, as amended. After the directory step, with \<^verbatim>\<open>sourceType\<close> \<^verbatim>\<open>id\<close> and the photo
  found: the tracking call on the photo's \<^verbatim>\<open>download_location\<close> comes right after the
  lookup and before the fetch; whatever it returns, an error list included, the
  invocation continues with the fetch of the selected URL and ends as that fetch and
  write end; when it throws, the handler's \<^verbatim>\<open>catch\<close> returns an error envelope with the
  exception's message and nothing is fetched. With \<^verbatim>\<open>sourceType\<close> \<^verbatim>\<open>url\<close> the fetch
  is of \<^verbatim>\<open>imageSource\<close> itself and no tracking call is made.
\<close>

theorem tracking_precedes_fetch:
  assumes valid: "validated args"
    and dest: "get_prop args ''destinationPath'' = JStr dest"
    and ens: "ensureDirectory w fs dest = (Returns (), calls1, fs1)"
    and run: "handleDownloadImage w fs args = (env, calls, fs')"
  shows "(get_prop args ''sourceType'' = JStr ''id'' \<longrightarrow>
          (\<forall>p. photos_get w (get_prop args ''imageSource'') = Returns (ApiSuccess p) \<longrightarrow>
             (\<forall>r. photos_trackDownload w (download_location (photo.links p)) = Returns r \<longrightarrow>
                (\<exists>calls3.
                   fetchAndWrite w fs1 dest
                     (JStr (selectUrl (with_default (get_prop args ''quality'') (JStr ''regular''))
                              (urls p)))
                     = (env, calls3, fs')
                   \<and> calls = calls1
                        @ [Call_photos_get (get_prop args ''imageSource''),
                           Call_photos_trackDownload (download_location (photo.links p))]
                        @ calls3
                   \<and> hd calls3 =
                       Call_fetch
                         (JStr (selectUrl (with_default (get_prop args ''quality'') (JStr ''regular''))
                                  (urls p)))))
             \<and> (\<forall>e. photos_trackDownload w (download_location (photo.links p)) = Throws e \<longrightarrow>
                  env = caught ''Error downloading image: '' e
                  \<and> calls = calls1
                       @ [Call_photos_get (get_prop args ''imageSource''),
                          Call_photos_trackDownload (download_location (photo.links p))]
                  \<and> fs' = fs1)))
     \<and> (get_prop args ''sourceType'' = JStr ''url'' \<longrightarrow>
          (\<exists>calls3.
             fetchAndWrite w fs1 dest (get_prop args ''imageSource'') = (env, calls3, fs')
             \<and> calls = calls1 @ calls3
             \<and> hd calls3 = Call_fetch (get_prop args ''imageSource'')
             \<and> (\<forall>l. Call_photos_trackDownload l \<notin> set calls)))"
proof -
  let ?src = "get_prop args ''imageSource''"
  let ?q = "with_default (get_prop args ''quality'') (JStr ''regular'')"
  note body = download_validated[OF valid dest, of w fs, unfolded ens, simplified]
  have tracked: "\<exists>calls3.
      fetchAndWrite w fs1 dest (JStr (selectUrl ?q (urls p))) = (env, calls3, fs')
      \<and> calls = calls1 @ [Call_photos_get ?src,
                           Call_photos_trackDownload (download_location (photo.links p))] @ calls3
      \<and> hd calls3 = Call_fetch (JStr (selectUrl ?q (urls p)))"
    if "get_prop args ''sourceType'' = JStr ''id''"
      "photos_get w ?src = Returns (ApiSuccess p)"
      "photos_trackDownload w (download_location (photo.links p)) = Returns r" for p r
  proof -
    obtain env' calls3 fs2 where fw:
      "fetchAndWrite w fs1 dest (JStr (selectUrl ?q (urls p))) = (env', calls3, fs2)"
      by (cases "fetchAndWrite w fs1 dest (JStr (selectUrl ?q (urls p)))") auto
    from body that resolve_id_tracked[OF that(2,3), of ?q] fw run
    have "env' = env" "fs2 = fs'"
      "calls = calls1 @ [Call_photos_get ?src,
         Call_photos_trackDownload (download_location (photo.links p))] @ calls3"
      by simp_all
    with fw fetchAndWrite_head[OF fw] show ?thesis by simp
  qed
  have thrown: "env = caught ''Error downloading image: '' e
      \<and> calls = calls1 @ [Call_photos_get ?src,
                           Call_photos_trackDownload (download_location (photo.links p))]
      \<and> fs' = fs1"
    if "get_prop args ''sourceType'' = JStr ''id''"
      "photos_get w ?src = Returns (ApiSuccess p)"
      "photos_trackDownload w (download_location (photo.links p)) = Throws e" for p e
    using body that resolve_id_track_throws[OF that(2,3), of ?q] run by simp
  have direct: "\<exists>calls3.
      fetchAndWrite w fs1 dest ?src = (env, calls3, fs')
      \<and> calls = calls1 @ calls3
      \<and> hd calls3 = Call_fetch ?src
      \<and> (\<forall>l. Call_photos_trackDownload l \<notin> set calls)"
    if "get_prop args ''sourceType'' = JStr ''url''"
  proof -
    obtain env' calls3 fs2 where fw: "fetchAndWrite w fs1 dest ?src = (env', calls3, fs2)"
      by (cases "fetchAndWrite w fs1 dest ?src") auto
    from body that resolve_url[of "JStr ''url''" w ?src ?q] fw run
    have "env' = env" "fs2 = fs'" "calls = calls1 @ calls3" by simp_all
    with fw fetchAndWrite_head[OF fw] ensureDirectory_only_fs(2)[OF ens]
      fetchAndWrite_only_fetch(2)[OF fw]
    show ?thesis by simp
  qed
  from tracked thrown direct show ?thesis by blast
qed

theorem tracking_precedes_fetch_witness:
  "photos_trackDownload demo_world (download_location (photo.links demo_photo))
     = Returns (ApiErrors [''Rate limit exceeded''])
   \<and> isError (fst (handleDownloadImage demo_world demo_fs0 demo_download_args)) = None
   \<and> (\<exists>calls3.
        fst (snd (handleDownloadImage demo_world demo_fs0 demo_download_args))
          = [Call_fs_existsSync ''/tmp/out'', Call_fs_mkdirSync ''/tmp/out'']
            @ [Call_photos_get (JStr ''abc123''),
               Call_photos_trackDownload ''https://api/p/abc123/download'']
            @ calls3
        \<and> hd calls3 = Call_fetch (JStr ''https://img/full''))"
proof -
  have valid: "validated demo_download_args"
    by (simp add: validated_def demo_download_args_def)
  have dest: "get_prop demo_download_args ''destinationPath'' = JStr ''/tmp/out/cat.jpg''"
    by (simp add: demo_download_args_def)
  have ens: "ensureDirectory demo_world demo_fs0 ''/tmp/out/cat.jpg''
      = (Returns (), [Call_fs_existsSync ''/tmp/out'', Call_fs_mkdirSync ''/tmp/out''],
         \<lparr>directories = [''/tmp/out''], files = []\<rparr>)"
    by (simp add: ensureDirectory_def Let_def demo_simps)
  have id: "get_prop demo_download_args ''sourceType'' = JStr ''id''"
    by (simp add: demo_download_args_def)
  have src: "photos_get demo_world (get_prop demo_download_args ''imageSource'')
      = Returns (ApiSuccess demo_photo)"
    by (simp add: demo_download_args_def demo_world_def)
  have tr: "photos_trackDownload demo_world (download_location (photo.links demo_photo))
      = Returns (ApiErrors [''Rate limit exceeded''])"
    by (simp add: demo_world_def)
  have sel: "selectUrl (with_default (get_prop demo_download_args ''quality'') (JStr ''regular''))
      (urls demo_photo) = ''https://img/full''"
    by (simp add: selectUrl_def with_default_def demo_download_args_def demo_photo_def)
  have loc: "download_location (photo.links demo_photo) = ''https://api/p/abc123/download''"
    by (simp add: demo_photo_def)
  have src': "get_prop demo_download_args ''imageSource'' = JStr ''abc123''"
    by (simp add: demo_download_args_def)
  from tracking_precedes_fetch[OF valid dest ens demo_download_run] id src tr
  have "\<exists>calls3.
        fst (snd (handleDownloadImage demo_world demo_fs0 demo_download_args))
          = [Call_fs_existsSync ''/tmp/out'', Call_fs_mkdirSync ''/tmp/out'']
            @ [Call_photos_get (JStr ''abc123''),
               Call_photos_trackDownload ''https://api/p/abc123/download'']
            @ calls3
        \<and> hd calls3 = Call_fetch (JStr ''https://img/full'')"
    unfolding sel loc src' demo_download_run by fastforce
  then show ?thesis
    using tr by (simp add: demo_download_run successEnvelope_def)
qed

text \<open>
  The claim as first stated, that a failing tracking call is never surfaced, does not
  hold when the call throws: the photo is found, the tracking call is rejected, and
  the caller receives an error envelope.
\<close>

theorem tracking_failure_surfaced_counterexample:
  "photos_get offline_tracking_world (JStr ''abc123'') = Returns (ApiSuccess demo_photo)
   \<and> photos_trackDownload offline_tracking_world ''https://api/p/abc123/download''
       = Throws (ErrorObj ''network down'')
   \<and> handleDownloadImage offline_tracking_world demo_fs0 demo_download_args =
       (errorEnvelope ''Error downloading image: network down'',
        [Call_fs_existsSync ''/tmp/out'', Call_fs_mkdirSync ''/tmp/out'',
         Call_photos_get (JStr ''abc123''),
         Call_photos_trackDownload ''https://api/p/abc123/download''],
        \<lparr>directories = [''/tmp/out''], files = []\<rparr>)
   \<and> isError (errorEnvelope ''Error downloading image: network down'') = Some True"
  by (simp add: download_simps demo_simps offline_tracking_world_def caught_def errorEnvelope_def)

text \<open>
  C10, as amended. In a \<^verbatim>\<open>download_image\<close> invocation that passes both validations,
  either \<^verbatim>\<open>destinationPath\<close> is not a string, and then an error envelope is returned
  with no call made and the file system untouched; or the calls begin with
  \<^verbatim>\<open>fs.existsSync\<close> on the destination directory, followed by the recursive
  \<^verbatim>\<open>fs.mkdirSync\<close> when \<^verbatim>\<open>existsSync\<close> answered no, and every other call comes after
  these. Nothing follows exactly when \<^verbatim>\<open>mkdirSync\<close> threw, and the envelope is then
  an error. Otherwise the next call is to the provider or the fetch, and a directory
  that \<^verbatim>\<open>mkdirSync\<close> made, or that was a directory before, is a directory in the final
  file system, whatever envelope is returned. \<open>is_dir\<close> is any property of paths that
  holds after a \<^verbatim>\<open>mkdirSync\<close> that returned and that \<^verbatim>\<open>writeFile\<close> keeps. Nothing is
  said of a path that exists without being a directory.
\<close>

theorem directory_step_first:
  assumes valid: "validated args"
    and run: "handleDownloadImage w fs args = (env, calls, fs')"
    and mkdir_post: "\<forall>s d s'. fs_mkdirSync w s d = (Returns (), s') \<longrightarrow> is_dir s' d"
    and write_keeps: "\<forall>s p b d. is_dir s d \<longrightarrow> is_dir (snd (fs_writeFile w s p b)) d"
  shows "((\<forall>dest. get_prop args ''destinationPath'' \<noteq> JStr dest)
          \<and> calls = [] \<and> fs' = fs \<and> isError env = Some True)
     \<or> (\<exists>dest rest.
          get_prop args ''destinationPath'' = JStr dest
          \<and> calls =
              (if fs_existsSync w fs (path_dirname w dest)
               then [Call_fs_existsSync (path_dirname w dest)]
               else [Call_fs_existsSync (path_dirname w dest),
                     Call_fs_mkdirSync (path_dirname w dest)]) @ rest
          \<and> (rest = [] \<longleftrightarrow>
                \<not> fs_existsSync w fs (path_dirname w dest)
                \<and> (\<exists>e. fst (fs_mkdirSync w fs (path_dirname w dest)) = Throws e))
          \<and> (rest = [] \<longrightarrow> isError env = Some True)
          \<and> (rest \<noteq> [] \<longrightarrow>
                is_remote (hd rest)
                \<and> (\<not> fs_existsSync w fs (path_dirname w dest)
                      \<or> is_dir fs (path_dirname w dest)
                    \<longrightarrow> is_dir fs' (path_dirname w dest))))"
proof (cases rule: download_cases[of args w fs])
  case (invalid t)
  with valid show ?thesis by simp
next
  case not_string
  with run show ?thesis by (auto simp: caught_def errorEnvelope_def)
next
  case (mkdir_throws dest e calls1 fs1)
  from ensureDirectory_throws[OF mkdir_throws(3)] mkdir_throws(2,4) run
  show ?thesis by (auto simp: caught_def errorEnvelope_def)
next
  case (left dest calls1 fs1 env' calls2)
  let ?dir = "path_dirname w dest"
  from ensureDirectory_returns[OF left(3)] mkdir_post
  have dir: "\<not> fs_existsSync w fs ?dir \<or> is_dir fs ?dir \<longrightarrow> is_dir fs1 ?dir"
    by (cases "fs_existsSync w fs ?dir") auto
  have ok: "fs_existsSync w fs ?dir \<or> fst (fs_mkdirSync w fs ?dir) = Returns ()"
    using ensureDirectory_returns(3)[OF left(3)] by (cases "fs_existsSync w fs ?dir") auto
  from resolve_left_calls[OF left(4)] have c2: "calls2 \<noteq> []" "is_remote (hd calls2)"
    by (simp_all add: is_remote_def)
  from left(5) run have "calls = calls1 @ calls2" "fs' = fs1" by simp_all
  with ensureDirectory_returns(1)[OF left(3)] left(2) dir ok c2
  show ?thesis by auto
next
  case (fetched dest calls1 fs1 url calls2 env' calls3 fs2)
  let ?dir = "path_dirname w dest"
  from ensureDirectory_returns[OF fetched(3)] mkdir_post
  have dir: "\<not> fs_existsSync w fs ?dir \<or> is_dir fs ?dir \<longrightarrow> is_dir fs1 ?dir"
    by (cases "fs_existsSync w fs ?dir") auto
  have ok: "fs_existsSync w fs ?dir \<or> fst (fs_mkdirSync w fs ?dir) = Returns ()"
    using ensureDirectory_returns(3)[OF fetched(3)] by (cases "fs_existsSync w fs ?dir") auto
  from fetchAndWrite_fs[OF fetched(5)] dir write_keeps
  have dir2: "\<not> fs_existsSync w fs ?dir \<or> is_dir fs ?dir \<longrightarrow> is_dir fs2 ?dir" by auto
  from fetchAndWrite_head[OF fetched(5)] have c3: "calls3 \<noteq> []" "is_remote (hd calls3)"
    by (simp_all add: is_remote_def)
  have c2: "calls2 = [] \<or> (calls2 \<noteq> [] \<and> is_remote (hd calls2))"
    using fetched(4)
    by (auto simp: resolveImageUrl_def Let_def is_remote_def
        split: if_splits outcome.splits api_response.splits)
  then have "calls2 @ calls3 \<noteq> []" "is_remote (hd (calls2 @ calls3))"
    using c3 by (auto simp: hd_append)
  moreover from fetched(6) run have "calls = calls1 @ (calls2 @ calls3)" "fs' = fs2" by simp_all
  ultimately show ?thesis
    using ensureDirectory_returns(1)[OF fetched(3)] fetched(2) dir2 ok
    by (intro disjI2 exI[of _ dest] exI[of _ "calls2 @ calls3"]) auto
qed

theorem directory_step_first_witness:
  "validated demo_failing_args
   \<and> isError (fst (handleDownloadImage demo_world demo_fs0 demo_failing_args)) = Some True
   \<and> ''/tmp/out'' \<notin> set (directories demo_fs0)
   \<and> ''/tmp/out''
       \<in> set (directories (snd (snd (handleDownloadImage demo_world demo_fs0 demo_failing_args))))"
proof -
  have valid: "validated demo_failing_args"
    by (simp add: validated_def demo_failing_args_def)
  have mk: "\<forall>s d s'. fs_mkdirSync demo_world s d = (Returns (), s') \<longrightarrow>
      (\<lambda>s d. d \<in> set (directories s)) s' d"
    by (auto simp: demo_world_def)
  have wr: "\<forall>s p b d. (\<lambda>s d. d \<in> set (directories s)) s d \<longrightarrow>
      (\<lambda>s d. d \<in> set (directories s)) (snd (fs_writeFile demo_world s p b)) d"
    by (simp add: demo_world_def)
  have dest: "get_prop demo_failing_args ''destinationPath'' = JStr ''/tmp/out/cat.jpg''"
    by (simp add: demo_failing_args_def)
  have dir: "path_dirname demo_world ''/tmp/out/cat.jpg'' = ''/tmp/out''"
    by (simp add: demo_simps)
  have absent: "\<not> fs_existsSync demo_world demo_fs0 ''/tmp/out''"
    by (simp add: demo_simps)
  define r where "r = handleDownloadImage demo_world demo_fs0 demo_failing_args"
  have run: "handleDownloadImage demo_world demo_fs0 demo_failing_args
      = (fst r, fst (snd r), snd (snd r))"
    by (simp add: r_def)
  have calls: "fst (snd r) = [Call_fs_existsSync ''/tmp/out'', Call_fs_mkdirSync ''/tmp/out'',
       Call_photos_get (JStr ''nope'')]"
    by (simp add: r_def demo_failing_run)
  from directory_step_first[OF valid run mk wr] dest dir absent calls
  have created: "''/tmp/out'' \<in> set (directories (snd (snd r)))"
    by auto
  have before: "''/tmp/out'' \<notin> set (directories demo_fs0)"
    by (simp add: demo_fs0_def)
  have "isError (fst r) = Some True"
    by (simp add: r_def demo_failing_run errorEnvelope_def)
  with valid created before show ?thesis
    by (simp add: r_def)
qed

text \<open>
  The claim as first stated has the directory created in every validated invocation.
  When \<^verbatim>\<open>mkdirSync\<close> throws, the handler's \<^verbatim>\<open>catch\<close> returns an error envelope and
  the directory is not there.
\<close>

theorem mkdir_failure_counterexample:
  "validated demo_download_args
   \<and> handleDownloadImage readonly_world demo_fs0 demo_download_args =
       (errorEnvelope ''Error downloading image: EACCES: permission denied, mkdir'',
        [Call_fs_existsSync ''/tmp/out'', Call_fs_mkdirSync ''/tmp/out''],
        demo_fs0)
   \<and> \<not> fs_existsSync readonly_world demo_fs0 ''/tmp/out''"
  by (simp add: download_simps demo_simps readonly_world_def validated_def caught_def)

end
